theory Spec2Isabelle
  imports Main "HOL-Library.Word"
begin

unbundle bit_operations_syntax

section \<open>Conventions shared by the components\<close>

text \<open>
  C strings are lists of characters without the terminating NUL, byte buffers are lists of
  8-bit words, and a pointer that may be NULL is an \<^verbatim>\<open>option\<close>.
\<close>

text \<open>
  The outcomes of the allocator are supplied from outside, one per call, in call order;
  once the list is used up every further allocation succeeds.
\<close>

type_synonym alloc_oracle = "bool list"

definition alloc_ok :: "alloc_oracle \<Rightarrow> bool" where
  "alloc_ok os = (case os of [] \<Rightarrow> True | b # _ \<Rightarrow> b)"

definition alloc_rest :: "alloc_oracle \<Rightarrow> alloc_oracle" where
  "alloc_rest os = (case os of [] \<Rightarrow> [] | _ # bs \<Rightarrow> bs)"

text \<open>An allocator oracle that never reports a failure.\<close>

definition allocs_succeed :: "alloc_oracle \<Rightarrow> bool" where
  "allocs_succeed os \<longleftrightarrow> (\<forall>b \<in> set os. b)"

text \<open>\<^verbatim>\<open>isspace\<close> in the C locale.\<close>

definition isspace :: "char \<Rightarrow> bool" where
  "isspace c \<longleftrightarrow> c \<in> {CHR 0x20, CHR 0x09, CHR 0x0A, CHR 0x0B, CHR 0x0C, CHR 0x0D}"

text \<open>
  \<^verbatim>\<open>strncmp(s, lit, n) == 0\<close> where \<^verbatim>\<open>n\<close> is the length of the NUL-free literal.
\<close>

definition starts_with :: "string \<Rightarrow> string \<Rightarrow> bool" where
  "starts_with s lit \<longleftrightarrow> take (length lit) s = lit"


section \<open>Frame pacing and the fixed-ratio drop policy\<close>

text \<open>
  The playback loop of \<^verbatim>\<open>src/src/main.c\<close> (function \<^verbatim>\<open>main\<close>, the body of
  \<^verbatim>\<open>while (ret >= 0)\<close> after a successful \<^verbatim>\<open>avcodec_receive_frame\<close>) and the
  older variant of the same loop kept in \<^verbatim>\<open>src/unnamed/part_004\<close>.

  The module-level variables touched by one decoded frame are gathered in a record; the
  ones that the HLS path of \<^verbatim>\<open>main.c\<close> uses as well form its parent record.
  \<^verbatim>\<open>uint64_t\<close> times are 64-bit words (subtraction and \<^verbatim>\<open>+=\<close> wrap around);
  the \<^verbatim>\<open>int\<close> counters are modelled as unbounded integers (signed overflow is
  undefined in C; the model does not bound the counters).  Pointers are modelled by
  whether they are non-NULL.
\<close>

record player_globals =
  last_frame_time :: "64 word"
  frame_duration_us :: "64 word"
  frames_dropped :: int
  frames_displayed :: int
  rgb_buffer :: bool
  video :: bool

record pacing_state = player_globals +
  skip_remaining :: int
  sws_ctx :: bool
  sws_w :: int
  sws_h :: int
  sws_fmt :: int
  should_quit :: bool

text \<open>
  Compile-time configuration: the macro \<^verbatim>\<open>FRAMESKIP_AMOUNT\<close> (3 unless overridden)
  and whether \<^verbatim>\<open>DISABLE_FRAMESKIP\<close> is defined.
\<close>

record pacing_config =
  FRAMESKIP_AMOUNT :: int
  DISABLE_FRAMESKIP :: bool

text \<open>
  What the outside world contributes to one decoded frame: the two readings of
  \<^verbatim>\<open>get_time_us\<close>, the frame geometry (\<^verbatim>\<open>f_w\<close>, \<^verbatim>\<open>f_h\<close>, \<^verbatim>\<open>f_fmt\<close>), whether
  \<^verbatim>\<open>sws_getContext\<close>, \<^verbatim>\<open>av_malloc\<close>, \<^verbatim>\<open>av_image_fill_arrays\<close> and
  \<^verbatim>\<open>init_video_output\<close> succeed if they are called, and the answers of the two
  \<^verbatim>\<open>video_poll\<close> calls.
\<close>

record frame_event =
  current_time :: "64 word"
  time_after_sleep :: "64 word"
  f_w :: int
  f_h :: int
  f_fmt :: int
  sws_getContext_ok :: bool
  av_malloc_ok :: bool
  fill_arrays_ok :: bool
  init_video_output_ok :: bool
  video_poll_1 :: bool
  video_poll_2 :: bool

datatype frame_outcome =
    Dropped          \<comment> \<open>\<^verbatim>\<open>continue\<close> in the skip branch\<close>
  | Rendered         \<comment> \<open>\<^verbatim>\<open>video_draw\<close> was called, loop goes on\<close>
  | RenderedQuit     \<comment> \<open>\<^verbatim>\<open>video_draw\<close> was called, then \<^verbatim>\<open>should_quit = 1; break\<close>\<close>
  | RenderAborted    \<comment> \<open>\<^verbatim>\<open>break\<close> before \<^verbatim>\<open>video_draw\<close> (scaler or buffer set-up failed)\<close>

text \<open>
  The argument of \<^verbatim>\<open>usleep\<close>, if it is called (main.c lines 1357-1362).  Sleeping only
  delays; it changes none of the variables of \<^typ>\<open>pacing_state\<close>.
\<close>

definition pacing_sleep :: "pacing_state \<Rightarrow> frame_event \<Rightarrow> 64 word option" where
  "pacing_sleep s e =
     (let elapsed = current_time e - last_frame_time s in
      if elapsed < frame_duration_us s then
        (let sleep_time = frame_duration_us s - elapsed in
         if 1000 < sleep_time \<and> sleep_time < 50000 then Some sleep_time else None)
      else None)"

text \<open>
  The block that re-creates the scaler and the RGB buffer when the frame geometry changed
  (main.c lines 1368-1405).  \<^verbatim>\<open>Inl\<close> is a \<^verbatim>\<open>break\<close>.
\<close>

definition ensure_scaler :: "pacing_state \<Rightarrow> frame_event \<Rightarrow> pacing_state + pacing_state" where
  "ensure_scaler s e =
     (if \<not> sws_ctx s \<or> sws_w s \<noteq> f_w e \<or> sws_h s \<noteq> f_h e \<or> sws_fmt s \<noteq> f_fmt e \<or> \<not> rgb_buffer s then
        (if \<not> sws_getContext_ok e then Inl (s\<lparr>sws_ctx := False\<rparr>)
         else if \<not> av_malloc_ok e then Inl (s\<lparr>sws_ctx := True, rgb_buffer := False\<rparr>)
         else if \<not> fill_arrays_ok e then Inl (s\<lparr>sws_ctx := True, rgb_buffer := True\<rparr>)
         else
           (let s1 = s\<lparr>sws_ctx := True, rgb_buffer := True,
                        sws_w := f_w e, sws_h := f_h e, sws_fmt := f_fmt e\<rparr> in
            if \<not> init_video_output_ok e then Inl (s1\<lparr>video := False\<rparr>)
            else Inr (s1\<lparr>video := True\<rparr>)))
      else Inr s)"

text \<open>One decoded frame in \<^verbatim>\<open>src/src/main.c\<close> (lines 1336-1448).\<close>

definition main_frame_event ::
  "pacing_config \<Rightarrow> pacing_state \<Rightarrow> frame_event \<Rightarrow> frame_outcome \<times> pacing_state" where
  "main_frame_event cfg s e =
     (if \<not> DISABLE_FRAMESKIP cfg \<and> FRAMESKIP_AMOUNT cfg > 0 \<and> skip_remaining s > 0 then
        (Dropped, s\<lparr>frames_dropped := frames_dropped s + 1,
                    skip_remaining := skip_remaining s - 1,
                    last_frame_time := last_frame_time s + frame_duration_us s\<rparr>)
      else
        (let s1 = s\<lparr>last_frame_time := time_after_sleep e\<rparr> in
         case ensure_scaler s1 e of
           Inl s2 \<Rightarrow> (RenderAborted, s2)
         | Inr s2 \<Rightarrow>
             (let s3 = s2\<lparr>frames_displayed := frames_displayed s2 + 1\<rparr> in
              if video_poll_1 e then (RenderedQuit, s3\<lparr>should_quit := True\<rparr>)
              else
                (let s4 = s3\<lparr>skip_remaining := FRAMESKIP_AMOUNT cfg\<rparr> in
                 if frames_displayed s4 mod 5 = 0 \<and> video_poll_2 e
                 then (RenderedQuit, s4\<lparr>should_quit := True\<rparr>)
                 else (Rendered, s4)))))"

text \<open>
  One decoded frame in the variant of the loop in \<^verbatim>\<open>src/unnamed/part_004\<close>
  (lines 703-770): no scaler re-creation, a single poll, and the skip branch leaves
  \<^verbatim>\<open>last_frame_time\<close> alone.  (That loop also drops non-key packets before decoding
  while \<^verbatim>\<open>skip_remaining > 0\<close>; such a packet never becomes a decoded frame.)
\<close>

definition part004_frame_event ::
  "pacing_config \<Rightarrow> pacing_state \<Rightarrow> frame_event \<Rightarrow> frame_outcome \<times> pacing_state" where
  "part004_frame_event cfg s e =
     (if \<not> DISABLE_FRAMESKIP cfg \<and> FRAMESKIP_AMOUNT cfg > 0 \<and> skip_remaining s > 0 then
        (Dropped, s\<lparr>frames_dropped := frames_dropped s + 1,
                    skip_remaining := skip_remaining s - 1\<rparr>)
      else
        (let s1 = s\<lparr>last_frame_time := time_after_sleep e\<rparr>;
             s2 = s1\<lparr>frames_displayed := frames_displayed s1 + 1\<rparr>;
             s3 = s2\<lparr>skip_remaining := FRAMESKIP_AMOUNT cfg\<rparr> in
         if frames_displayed s3 mod 5 = 0 \<and> video_poll_2 e
         then (RenderedQuit, s3\<lparr>should_quit := True\<rparr>)
         else (Rendered, s3)))"

text \<open>
  A sequence of decoded frames.  A \<^verbatim>\<open>break\<close> leaves only the inner receive loop, so
  after \<^const>\<open>RenderAborted\<close> the next decoded frame is processed as usual; the outer loop
  \<^verbatim>\<open>while (!should_quit && ...)\<close> ends once \<^verbatim>\<open>should_quit\<close> is set.  The result lists
  each processed frame's outcome with the state after it.
\<close>

fun run_frames ::
  "(pacing_state \<Rightarrow> frame_event \<Rightarrow> frame_outcome \<times> pacing_state) \<Rightarrow>
   pacing_state \<Rightarrow> frame_event list \<Rightarrow> (frame_outcome \<times> pacing_state) list" where
  "run_frames step s [] = []"
| "run_frames step s (e # es) =
     (if should_quit s then []
      else (let r = step s e in r # run_frames step (snd r) es))"

text \<open>
  A decoded frame whose rendering meets no obstacle: every set-up call that may be needed
  succeeds and the user does not ask to quit.
\<close>

definition render_unhindered :: "frame_event \<Rightarrow> bool" where
  "render_unhindered e \<longleftrightarrow>
     sws_getContext_ok e \<and> av_malloc_ok e \<and> fill_arrays_ok e \<and> init_video_output_ok e \<and>
     \<not> video_poll_1 e \<and> \<not> video_poll_2 e"

text \<open>Sample inputs used to instantiate the theorems below.\<close>

definition default_config :: pacing_config where
  "default_config = \<lparr>FRAMESKIP_AMOUNT = 3, DISABLE_FRAMESKIP = False\<rparr>"

definition sample_pacing_state :: pacing_state where
  "sample_pacing_state =
     \<lparr>last_frame_time = 1000000, frame_duration_us = 33333, frames_dropped = 0,
      frames_displayed = 0, rgb_buffer = True, video = True, skip_remaining = 0,
      sws_ctx = True, sws_w = 640, sws_h = 360, sws_fmt = 0, should_quit = False\<rparr>"

definition sample_frame_event :: frame_event where
  "sample_frame_event =
     \<lparr>current_time = 1040000, time_after_sleep = 1040000, f_w = 640, f_h = 360, f_fmt = 0,
      sws_getContext_ok = True, av_malloc_ok = True, fill_arrays_ok = True,
      init_video_output_ok = True, video_poll_1 = False, video_poll_2 = False\<rparr>"

section \<open>Variant selection\<close>

text \<open>
  \<^verbatim>\<open>src/src/resolver/twitch.c\<close>: \<^verbatim>\<open>resolve_relative\<close> and
  \<^verbatim>\<open>pick_lowest_variant_from_master\<close>.  The master playlist is the C string that
  \<^verbatim>\<open>fetch_url_content\<close> returned.  \<^verbatim>\<open>uri\<close> is NULL when
  \<^verbatim>\<open>resolve_relative\<close> could not allocate.
\<close>

record variant =
  uri :: "string option"
  bandwidth :: int
  height :: int


















section \<open>The parameter-set / slice state machine (simple_h264)\<close>

text \<open>
  \<^verbatim>\<open>src/unnamed/part_003\<close> (the implementation behind
  \<^verbatim>\<open>src/src/codecs/simple_h264/simple_h264.h\<close>).  A NAL unit is the list of its bytes;
  a pointer into it is an index.  The frame buffer is modelled by whether it is allocated
  and by its size: the test pattern written into the planes is outside the model.
\<close>

datatype simple_h264_result_t =
    SIMPLE_H264_OK
  | SIMPLE_H264_ERROR
  | SIMPLE_H264_NEED_MORE_DATA
  | SIMPLE_H264_FRAME_READY
  | SIMPLE_H264_HEADERS_READY
  | SIMPLE_H264_PARAM_SET_ERROR

record simple_h264_decoder =
  width :: "32 word"
  height :: "32 word"
  profile_idc :: "8 word"
  level_idc :: "8 word"
  sps_valid :: "8 word"
  pps_valid :: "8 word"
  frame_buffer :: bool
  frame_buffer_size :: nat
  initialized :: "8 word"

record simple_h264_frame_t =
  y_plane :: bool
  u_plane :: bool
  v_plane :: bool
  frame_width :: "32 word"
  frame_height :: "32 word"
  y_stride :: "32 word"
  uv_stride :: "32 word"

text \<open>\<^verbatim>\<open>simple_h264_create\<close>: \<^verbatim>\<open>calloc\<close> zeroes every field.\<close>

definition simple_h264_create :: simple_h264_decoder where
  "simple_h264_create =
     \<lparr>width = 0, height = 0, profile_idc = 0, level_idc = 0, sps_valid = 0, pps_valid = 0,
      frame_buffer = False, frame_buffer_size = 0, initialized = 0\<rparr>"

text \<open>The callers' \<^verbatim>\<open>simple_h264_frame_t frame = {0}\<close>.\<close>

definition zero_frame :: simple_h264_frame_t where
  "zero_frame =
     \<lparr>y_plane = False, u_plane = False, v_plane = False, frame_width = 0, frame_height = 0,
      y_stride = 0, uv_stride = 0\<rparr>"

text \<open>
  \<^verbatim>\<open>(ptr[bit_pos / 8] >> (7 - bit_pos % 8)) & 1\<close>.  The loops below test
  \<^verbatim>\<open>bit_pos < bits_left\<close> before every read; the guard on the index makes the model
  total (a read past the end of the NAL unit, undefined in C, would give a 0 bit).
\<close>

definition bit_at :: "8 word list \<Rightarrow> nat \<Rightarrow> nat \<Rightarrow> bool" where
  "bit_at buf ptr bit_pos =
     (ptr + bit_pos div 8 < length buf \<and> bit (buf ! (ptr + bit_pos div 8)) (7 - bit_pos mod 8))"

text \<open>The first loop of \<^verbatim>\<open>read_ue_golomb\<close>: count leading zero bits.\<close>

function ue_count_zeros ::
  "8 word list \<Rightarrow> nat \<Rightarrow> nat \<Rightarrow> 32 word \<Rightarrow> nat \<Rightarrow> 32 word \<times> nat" where
  "ue_count_zeros buf ptr bits_left leading_zeros bit_pos =
     (if bit_pos < bits_left then
        (if bit_at buf ptr bit_pos then (leading_zeros, bit_pos)
         else ue_count_zeros buf ptr bits_left (leading_zeros + 1) (bit_pos + 1))
      else (leading_zeros, bit_pos))"
  by pat_completeness auto
termination
  by (relation "measure (\<lambda>(buf, ptr, bits_left, leading_zeros, bit_pos). bits_left - bit_pos)") auto

text \<open>
  The second loop: read \<^verbatim>\<open>leading_zeros\<close> more bits into \<^verbatim>\<open>value\<close>.  The counter
  \<^verbatim>\<open>i\<close> runs from 0 up to \<^verbatim>\<open>leading_zeros\<close> without wrapping, so it is a natural number
  here.
\<close>

function ue_read_bits ::
  "8 word list \<Rightarrow> nat \<Rightarrow> nat \<Rightarrow> nat \<Rightarrow> nat \<Rightarrow> 32 word \<Rightarrow> nat \<Rightarrow> 32 word \<times> nat" where
  "ue_read_bits buf ptr bits_left leading_zeros i val bit_pos =
     (if i < leading_zeros then
        (if bit_pos \<ge> bits_left then (val, bit_pos)
         else ue_read_bits buf ptr bits_left leading_zeros (i + 1)
                (push_bit 1 val OR (if bit_at buf ptr bit_pos then 1 else 0)) (bit_pos + 1))
      else (val, bit_pos))"
  by pat_completeness auto
termination
  by (relation "measure (\<lambda>(buf, ptr, bits_left, leading_zeros, i, val, bit_pos). leading_zeros - i)")
     auto

declare ue_count_zeros.simps [simp del]
declare ue_read_bits.simps [simp del]

text \<open>
  \<^verbatim>\<open>read_ue_golomb(&ptr, &bits_left)\<close>: the cursor is the pair of the byte index and the
  number of bits left.  The result \<^verbatim>\<open>(1 << leading_zeros) - 1 + value\<close> is computed in
  32 bits; for \<^verbatim>\<open>leading_zeros \<ge> 31\<close> C leaves the shift undefined and the model takes
  the wrap-around value (no theorem below depends on that choice).
\<close>

definition read_ue_golomb :: "8 word list \<Rightarrow> nat \<times> nat \<Rightarrow> 32 word \<times> (nat \<times> nat)" where
  "read_ue_golomb buf c =
     (case c of (ptr, bits_left) \<Rightarrow>
        if bits_left = 0 then (0, c)
        else
          (case ue_count_zeros buf ptr bits_left 0 0 of (leading_zeros, bit_pos) \<Rightarrow>
             if bit_pos + unat leading_zeros + 1 > bits_left then (0, c)
             else
               (case ue_read_bits buf ptr bits_left (unat leading_zeros) 0 0 (bit_pos + 1) of
                  (val, bit_pos') \<Rightarrow>
                    (push_bit (unat leading_zeros) 1 - 1 + val,
                     (ptr + bit_pos' div 8, bits_left - bit_pos')))))"

text \<open>\<^verbatim>\<open>parse_sps\<close>; the Boolean is the C return value (1 = parsed).\<close>

definition parse_sps :: "simple_h264_decoder \<Rightarrow> 8 word list \<Rightarrow> bool \<times> simple_h264_decoder" where
  "parse_sps d data =
     (if length data < 4 then (False, d)
      else
        (let d1 = d\<lparr>profile_idc := data ! 1, level_idc := data ! 3\<rparr>;
             c0 = (4, (length data - 1) * 8 - 24);
             c1 = snd (read_ue_golomb data c0)
         in if profile_idc d1 = 66 then
              (let c2 = snd (read_ue_golomb data c1);
                   poc = read_ue_golomb data c2;
                   c3 = (if fst poc = 0 then snd (read_ue_golomb data (snd poc)) else snd poc);
                   c4 = snd (read_ue_golomb data c3);
                   c5 = (case c4 of (ptr, bits_left) \<Rightarrow>
                           if bits_left > 0
                           then (ptr + (if bits_left mod 8 \<noteq> 0 then 1 else 0),
                                 bits_left - bits_left mod 8)
                           else c4);
                   w = read_ue_golomb data c5;
                   width_mbs = fst w + 1;
                   h = read_ue_golomb data (snd w);
                   height_mbs = fst h + 1
               in (True, d1\<lparr>width := width_mbs * 16, height := height_mbs * 16,
                             sps_valid := 1\<rparr>))
            else (True, d1\<lparr>width := 1920, height := 1080, sps_valid := 1\<rparr>)))"

definition parse_pps :: "simple_h264_decoder \<Rightarrow> 8 word list \<Rightarrow> bool \<times> simple_h264_decoder" where
  "parse_pps d data = (True, d\<lparr>pps_valid := 1\<rparr>)"

text \<open>\<^verbatim>\<open>simple_h264_get_nal_type\<close> on a non-NULL pointer: \<^verbatim>\<open>data[0] & 0x1F\<close>.\<close>

definition simple_h264_get_nal_type :: "8 word list \<Rightarrow> 8 word" where
  "simple_h264_get_nal_type data = (case data of [] \<Rightarrow> 0 | b # _ \<Rightarrow> b AND 0x1F)"

definition simple_h264_is_parameter_set :: "8 word \<Rightarrow> bool" where
  "simple_h264_is_parameter_set nal_type \<longleftrightarrow> nal_type = 7 \<or> nal_type = 8"

text \<open>
  The slice branch of \<^verbatim>\<open>simple_h264_decode\<close> once both parameter sets are valid
  (lines 211-254).  \<^verbatim>\<open>needed_size\<close> is computed in 32 bits.
\<close>

definition decode_slice ::
  "alloc_oracle \<Rightarrow> simple_h264_decoder \<Rightarrow> simple_h264_frame_t option \<Rightarrow>
   simple_h264_result_t \<times> simple_h264_decoder \<times> simple_h264_frame_t option \<times> alloc_oracle" where
  "decode_slice os d frame =
     (if frame \<noteq> None \<and> width d > 0 \<and> height d > 0 then
        (let needed_size = unat (width d * height d * 3 div 2);
             realloc = (\<not> frame_buffer d \<or> frame_buffer_size d < needed_size);
             d1 = (if realloc
                   then d\<lparr>frame_buffer := alloc_ok os, frame_buffer_size := needed_size\<rparr>
                   else d);
             os1 = (if realloc then alloc_rest os else os)
         in if frame_buffer d1 then
              (SIMPLE_H264_FRAME_READY, d1,
               Some \<lparr>y_plane = True, u_plane = True, v_plane = True,
                     frame_width = width d1, frame_height = height d1,
                     y_stride = width d1, uv_stride = width d1 div 2\<rparr>, os1)
            else (SIMPLE_H264_OK, d1, frame, os1))
      else (SIMPLE_H264_OK, d, frame, os))"

text \<open>
  \<^verbatim>\<open>simple_h264_decode(decoder, data, data_size, frame)\<close>.  \<^verbatim>\<open>None\<close> is a NULL
  pointer; \<^verbatim>\<open>data_size\<close> is the length of the list.
\<close>

definition simple_h264_decode ::
  "alloc_oracle \<Rightarrow> simple_h264_decoder option \<Rightarrow> 8 word list option \<Rightarrow>
   simple_h264_frame_t option \<Rightarrow>
   simple_h264_result_t \<times> simple_h264_decoder option \<times> simple_h264_frame_t option \<times> alloc_oracle" where
  "simple_h264_decode os decoder data frame =
     (case (decoder, data) of
        (Some d, Some bytes) \<Rightarrow>
          if bytes = [] then (SIMPLE_H264_ERROR, decoder, frame, os)
          else
            (let nal_type = simple_h264_get_nal_type bytes in
             if nal_type = 7 then
               (case parse_sps d bytes of
                  (True, d') \<Rightarrow> (SIMPLE_H264_HEADERS_READY, Some d', frame, os)
                | (False, d') \<Rightarrow> (SIMPLE_H264_PARAM_SET_ERROR, Some d', frame, os))
             else if nal_type = 8 then
               (case parse_pps d bytes of
                  (True, d') \<Rightarrow> (SIMPLE_H264_HEADERS_READY, Some d', frame, os)
                | (False, d') \<Rightarrow> (SIMPLE_H264_PARAM_SET_ERROR, Some d', frame, os))
             else if nal_type = 5 \<or> nal_type = 1 then
               (if sps_valid d = 0 \<or> pps_valid d = 0
                then (SIMPLE_H264_PARAM_SET_ERROR, decoder, frame, os)
                else (case decode_slice os d frame of
                        (r, d', frame', os') \<Rightarrow> (r, Some d', frame', os')))
             else (SIMPLE_H264_OK, decoder, frame, os))
      | _ \<Rightarrow> (SIMPLE_H264_ERROR, decoder, frame, os))"


section \<open>The HLS playlist parser\<close>

text \<open>
  \<^verbatim>\<open>src/include/hls_demuxer.h\<close> and \<^verbatim>\<open>src/unnamed/part_005\<close>
  (\<^verbatim>\<open>hls_parse_playlist_from_memory\<close>).  C strings are lists of characters without
  the terminating NUL; \<^verbatim>\<open>None\<close> is a NULL pointer.
\<close>

datatype hls_playlist_type_t = HLS_PLAYLIST_UNKNOWN | HLS_PLAYLIST_MASTER | HLS_PLAYLIST_MEDIA

datatype hls_error_t =
  HLS_OK | HLS_ERROR_MEMORY | HLS_ERROR_NETWORK | HLS_ERROR_PARSE | HLS_ERROR_IO

text \<open>
  \<^verbatim>\<open>duration\<close> is a \<^verbatim>\<open>double\<close> obtained by \<^verbatim>\<open>atof\<close>; the model keeps the text
  handed to \<^verbatim>\<open>atof\<close> (\<^verbatim>\<open>None\<close> for the initial \<^verbatim>\<open>0.0\<close>) instead of a floating-point
  value.
\<close>

record hls_segment_t =
  url :: string
  duration :: "string option"
  is_key_segment :: bool
  key_url :: "string option"
  key_iv :: "string option"

text \<open>
  \<^verbatim>\<open>segment_count\<close> and \<^verbatim>\<open>variant_count\<close> are the lengths of the two lists.  An
  entry \<^verbatim>\<open>None\<close> of \<^verbatim>\<open>variants\<close> is a slot whose content was lost when a
  \<^verbatim>\<open>realloc\<close> failed (the code overwrites the array pointer with NULL and keeps the
  count); \<^verbatim>\<open>variants_null\<close> records that the array pointer is NULL.
\<close>

record hls_playlist_t =
  type :: hls_playlist_type_t
  base_url :: "string option"
  segments :: "hls_segment_t list"
  segment_capacity :: nat
  variants :: "string option list"
  variants_null :: bool

definition segment_count :: "hls_playlist_t \<Rightarrow> nat" where
  "segment_count p = length (segments p)"

definition variant_count :: "hls_playlist_t \<Rightarrow> nat" where
  "variant_count p = length (variants p)"

text \<open>The playlist that \<^verbatim>\<open>hls_playlist_create\<close> returns when both \<^verbatim>\<open>calloc\<close>s succeed.\<close>

definition new_playlist :: hls_playlist_t where
  "new_playlist =
     \<lparr>type = HLS_PLAYLIST_UNKNOWN, base_url = None, segments = [], segment_capacity = 16,
      variants = [], variants_null = True\<rparr>"


text \<open>
  \<^verbatim>\<open>trim\<close>: skip leading white space, then cut trailing white space.  After the leading
  white space is skipped the first character, if any, is not white space, which is where
  the backward scan \<^verbatim>\<open>while (end > str && isspace(*end))\<close> stops at the latest.
\<close>

definition trim :: "string \<Rightarrow> string" where
  "trim str = rev (dropWhile isspace (rev (dropWhile isspace str)))"

text \<open>
  The line loop.  \<^verbatim>\<open>data\<close> is the \<^verbatim>\<open>len\<close> bytes of the buffer, which the download
  callback terminates with a NUL at \<^verbatim>\<open>data[len]\<close>.  \<^verbatim>\<open>strchr(line, '\n')\<close> and
  \<^verbatim>\<open>strndup\<close> both stop at a NUL, so a line ends at the first newline or NUL; when the
  line was not ended by a newline, \<^verbatim>\<open>next_line\<close> is \<^verbatim>\<open>data + len\<close> and the loop is left
  after this line.
\<close>

function c_lines :: "string \<Rightarrow> string list" where
  "c_lines rest =
     (if rest = [] then []
      else
        (let line = takeWhile (\<lambda>c. c \<noteq> CHR 0x0A \<and> c \<noteq> CHR 0x00) rest in
         if length line < length rest \<and> rest ! length line = CHR 0x0A
         then line # c_lines (drop (length line + 1) rest)
         else [line]))"
  by pat_completeness auto
termination
  by (relation "measure length") auto

declare c_lines.simps [simp del]

text \<open>
  The body of the loop for one line, after \<^verbatim>\<open>strndup\<close> succeeded and the copy was
  trimmed.  The result is \<^verbatim>\<open>Inl\<close> for \<^verbatim>\<open>return HLS_ERROR_MEMORY\<close>, otherwise the new
  \<^verbatim>\<open>current_duration\<close>; the playlist is updated in place either way.
\<close>

definition parse_line ::
  "alloc_oracle \<Rightarrow> string \<Rightarrow> string option \<Rightarrow> hls_playlist_t \<Rightarrow>
   (hls_error_t + string option) \<times> hls_playlist_t \<times> alloc_oracle" where
  "parse_line os trimmed current_duration p =
     (if starts_with trimmed ''#EXTM3U'' then (Inr current_duration, p, os)
      else if starts_with trimmed ''#EXT-X-STREAM-INF:'' then
        (Inr current_duration, p\<lparr>type := HLS_PLAYLIST_MASTER\<rparr>, os)
      else if starts_with trimmed ''#EXTINF:'' then
        (Inr (Some (drop 8 trimmed)), p\<lparr>type := HLS_PLAYLIST_MEDIA\<rparr>, os)
      else if starts_with trimmed ''#EXT-X-TARGETDURATION:'' then
        (Inr current_duration, p\<lparr>type := HLS_PLAYLIST_MEDIA\<rparr>, os)
      else if starts_with trimmed ''#EXT-X-MEDIA-SEQUENCE:'' then
        (Inr current_duration, p\<lparr>type := HLS_PLAYLIST_MEDIA\<rparr>, os)
      else if trimmed \<noteq> [] \<and> hd trimmed \<noteq> CHR ''#'' then
        (if type p = HLS_PLAYLIST_MASTER then
           (if \<not> alloc_ok os then
              (Inr current_duration,
               p\<lparr>variants := map (\<lambda>_. None) (variants p), variants_null := True\<rparr>,
               alloc_rest os)
            else if \<not> alloc_ok (alloc_rest os) then
              (Inr current_duration, p\<lparr>variants_null := False\<rparr>, alloc_rest (alloc_rest os))
            else
              (Inr current_duration,
               p\<lparr>variants := variants p @ [Some trimmed], variants_null := False\<rparr>,
               alloc_rest (alloc_rest os)))
         else
           (let grow = (segment_count p \<ge> segment_capacity p);
                p1 = (if grow then p\<lparr>segment_capacity := segment_capacity p * 2\<rparr> else p);
                os1 = (if grow then alloc_rest os else os)
            in if grow \<and> \<not> alloc_ok os then (Inl HLS_ERROR_MEMORY, p1, os1)
               else if \<not> alloc_ok os1 then (Inr current_duration, p1, alloc_rest os1)
               else
                 (Inr current_duration,
                  p1\<lparr>segments := segments p1 @
                        [\<lparr>url = trimmed, duration = current_duration, is_key_segment = False,
                          key_url = None, key_iv = None\<rparr>]\<rparr>,
                  alloc_rest os1)))
      else (Inr current_duration, p, os))"

text \<open>The loop over the lines: \<^verbatim>\<open>strndup\<close>, \<^verbatim>\<open>trim\<close>, the body, next line.\<close>

fun parse_lines ::
  "alloc_oracle \<Rightarrow> string list \<Rightarrow> string option \<Rightarrow> hls_playlist_t \<Rightarrow>
   hls_error_t \<times> hls_playlist_t \<times> alloc_oracle" where
  "parse_lines os [] current_duration p = (HLS_OK, p, os)"
| "parse_lines os (line # lines) current_duration p =
     (if \<not> alloc_ok os then (HLS_ERROR_MEMORY, p, alloc_rest os)
      else
        (case parse_line (alloc_rest os) (trim line) current_duration p of
           (Inl err, p', os') \<Rightarrow> (err, p', os')
         | (Inr current_duration', p', os') \<Rightarrow> parse_lines os' lines current_duration' p'))"

text \<open>
  \<^verbatim>\<open>hls_parse_playlist_from_memory(demuxer, data, len, base_url, playlist)\<close>; the
  \<^verbatim>\<open>demuxer\<close> argument is not used by the function.
\<close>

definition hls_parse_playlist_from_memory ::
  "alloc_oracle \<Rightarrow> string option \<Rightarrow> string option \<Rightarrow> hls_playlist_t option \<Rightarrow>
   hls_error_t \<times> hls_playlist_t option \<times> alloc_oracle" where
  "hls_parse_playlist_from_memory os data base playlist =
     (case (data, playlist) of
        (Some text, Some p) \<Rightarrow>
          (let p1 = (case base of
                       None \<Rightarrow> p
                     | Some b \<Rightarrow> p\<lparr>base_url := (if alloc_ok os then Some b else None)\<rparr>);
               os1 = (case base of None \<Rightarrow> os | Some b \<Rightarrow> alloc_rest os)
           in case parse_lines os1 (c_lines text) None p1 of
                (err, p', os') \<Rightarrow> (err, Some p', os'))
      | _ \<Rightarrow> (HLS_ERROR_PARSE, playlist, os))"

text \<open>
  For the statement of the parser's behaviour: the kind a trimmed line sets, following the
  branch order of the loop body, and the kind left by the last kind-setting line of a
  text.
\<close>

definition line_kind :: "string \<Rightarrow> hls_playlist_type_t option" where
  "line_kind trimmed =
     (if starts_with trimmed ''#EXTM3U'' then None
      else if starts_with trimmed ''#EXT-X-STREAM-INF:'' then Some HLS_PLAYLIST_MASTER
      else if starts_with trimmed ''#EXTINF:'' then Some HLS_PLAYLIST_MEDIA
      else if starts_with trimmed ''#EXT-X-TARGETDURATION:'' then Some HLS_PLAYLIST_MEDIA
      else if starts_with trimmed ''#EXT-X-MEDIA-SEQUENCE:'' then Some HLS_PLAYLIST_MEDIA
      else None)"

fun last_kind :: "hls_playlist_type_t \<Rightarrow> string list \<Rightarrow> hls_playlist_type_t" where
  "last_kind k [] = k"
| "last_kind k (line # lines) =
     last_kind (case line_kind (trim line) of None \<Rightarrow> k | Some k' \<Rightarrow> k') lines"

section \<open>The playlist refresh loop\<close>

text \<open>
  \<^verbatim>\<open>src/src/dmux/hls/hls_demuxer.c\<close>: \<^verbatim>\<open>hls_resolve_url\<close>, \<^verbatim>\<open>download_url\<close> and
  \<^verbatim>\<open>hls_process_stream\<close>.
\<close>

















section \<open>The segment consumer: TS demultiplexing, PES reassembly, NAL extraction\<close>

text \<open>
  \<^verbatim>\<open>src/src/main.c\<close>: \<^verbatim>\<open>process_h264_nal_unit\<close> and \<^verbatim>\<open>hls_segment_callback\<close>, as
  built without \<^verbatim>\<open>USE_MPEG4\<close> (the branch for \<^verbatim>\<open>use_custom_decoder == 2\<close> is then
  empty).  Byte buffers are lists of bytes and pointers into them are indices.

  Besides the globals and the function-local \<^verbatim>\<open>static\<close> variables the record holds
  what the outside world will answer: the allocator (\<^verbatim>\<open>heap\<close>), the answers of
  \<^verbatim>\<open>video_poll\<close>, the readings of \<^verbatim>\<open>get_time_us\<close> and the outcomes of
  \<^verbatim>\<open>video_create\<close>, each consumed in call order (an exhausted list answers: no quit
  request, time 0, success).  Two more fields only record what was done: the data of
  every call of \<^verbatim>\<open>simple_h264_decode\<close> and the frame size of every call of
  \<^verbatim>\<open>video_draw\<close>.  The debugging output, including the one-time dump of a PES buffer to
  a file, and the colour conversion are not modelled; \<^verbatim>\<open>usleep\<close> only delays.
\<close>

record hls_player = player_globals +
  h264_decoder :: "simple_h264_decoder option"
  use_custom_decoder :: int
  should_quit_hls :: bool
  hls_last_w :: "32 word"
  hls_last_h :: "32 word"
  last_w_all :: "32 word"
  last_h_all :: "32 word"
  last_w :: "32 word"
  last_h :: "32 word"
  heap :: alloc_oracle
  polls :: "bool list"
  clock :: "64 word list"
  video_creates :: "bool list"
  decoder_feeds :: "8 word list list"
  video_draw_calls :: "(32 word \<times> 32 word) list"

definition video_poll :: "hls_player \<Rightarrow> bool \<times> hls_player" where
  "video_poll s = (case polls s of [] \<Rightarrow> (False, s) | b # bs \<Rightarrow> (b, s\<lparr>polls := bs\<rparr>))"

definition get_time_us :: "hls_player \<Rightarrow> 64 word \<times> hls_player" where
  "get_time_us s = (case clock s of [] \<Rightarrow> (0, s) | t # ts \<Rightarrow> (t, s\<lparr>clock := ts\<rparr>))"

text \<open>\<^verbatim>\<open>init_video_output\<close>; the Boolean is \<^verbatim>\<open>True\<close> for the return value 0.\<close>

definition init_video_output :: "hls_player \<Rightarrow> bool \<times> hls_player" where
  "init_video_output s =
     (case video_creates s of
        [] \<Rightarrow> (True, s\<lparr>video := True\<rparr>)
      | b # bs \<Rightarrow> (b, s\<lparr>video := b, video_creates := bs\<rparr>))"

definition video_draw :: "hls_player \<Rightarrow> 32 word \<Rightarrow> 32 word \<Rightarrow> hls_player" where
  "video_draw s w h = s\<lparr>video_draw_calls := video_draw_calls s @ [(w, h)]\<rparr>"

text \<open>
  The timing after a drawn frame: read the clock, sleep if the frame came early, read the
  clock again into \<^verbatim>\<open>last_frame_time\<close>.
\<close>

definition pace_frame :: "hls_player \<Rightarrow> hls_player" where
  "pace_frame s =
     (case get_time_us s of (now, s1) \<Rightarrow>
        (case get_time_us s1 of (t, s2) \<Rightarrow> s2\<lparr>last_frame_time := t\<rparr>))"

text \<open>
  \<^verbatim>\<open>if (video && video_poll(video)) { should_quit_hls = 1; return 1; }\<close>: the Boolean
  says that the \<^verbatim>\<open>return\<close> was taken.
\<close>

definition poll_quit :: "hls_player \<Rightarrow> bool \<times> hls_player" where
  "poll_quit s =
     (if video s then
        (case video_poll s of
           (True, s1) \<Rightarrow> (True, s1\<lparr>should_quit_hls := True\<rparr>)
         | (False, s1) \<Rightarrow> (False, s1))
      else (False, s))"

text \<open>
  A call \<^verbatim>\<open>simple_h264_decode(h264_decoder, data, size, &frame)\<close> with a zeroed frame
  structure.
\<close>

definition feed_decoder ::
  "hls_player \<Rightarrow> 8 word list \<Rightarrow> simple_h264_result_t \<times> simple_h264_frame_t \<times> hls_player" where
  "feed_decoder s data =
     (case simple_h264_decode (heap s) (h264_decoder s) (Some data) (Some zero_frame) of
        (result, decoder', frame', heap') \<Rightarrow>
          (result, (case frame' of None \<Rightarrow> zero_frame | Some f \<Rightarrow> f),
           s\<lparr>h264_decoder := decoder', heap := heap',
             decoder_feeds := decoder_feeds s @ [data]\<rparr>))"

text \<open>
  \<^verbatim>\<open>result == SIMPLE_H264_FRAME_READY && frame.y_plane && frame.width > 0 &&
  frame.height > 0\<close>.
\<close>

definition has_picture :: "simple_h264_result_t \<Rightarrow> simple_h264_frame_t \<Rightarrow> bool" where
  "has_picture result frame \<longleftrightarrow>
     result = SIMPLE_H264_FRAME_READY \<and> y_plane frame \<and> frame_width frame > 0 \<and>
     frame_height frame > 0"

text \<open>\<^verbatim>\<open>process_h264_nal_unit(nal_data, nal_len, debug_prefix)\<close> (lines 151-213).\<close>

definition process_h264_nal_unit :: "hls_player \<Rightarrow> 8 word list \<Rightarrow> int \<times> hls_player" where
  "process_h264_nal_unit s nal =
     (if nal = [] \<or> h264_decoder s = None then (0, s)
      else
        (case feed_decoder s nal of (result, frame, s1) \<Rightarrow>
           if has_picture result frame then
             (case (if \<not> video s1 then init_video_output s1 else (True, s1)) of
                (False, s2) \<Rightarrow> (0, s2)
              | (True, s2) \<Rightarrow>
                  (let realloc = (\<not> rgb_buffer s2 \<or> last_w s2 \<noteq> frame_width frame \<or>
                                  last_h s2 \<noteq> frame_height frame)
                   in if realloc \<and> \<not> alloc_ok (heap s2)
                      then (0, s2\<lparr>rgb_buffer := False, heap := alloc_rest (heap s2)\<rparr>)
                      else
                        (let s3 = (if realloc
                                   then s2\<lparr>rgb_buffer := True, heap := alloc_rest (heap s2),
                                           last_w := frame_width frame,
                                           last_h := frame_height frame\<rparr>
                                   else s2);
                             s4 = video_draw s3 (frame_width frame) (frame_height frame);
                             s5 = pace_frame (s4\<lparr>frames_displayed := frames_displayed s4 + 1\<rparr>)
                         in (1, snd (poll_quit s5)))))
           else (0, s1)))"

subsection \<open>Annex-B scanning\<close>

definition start_code3 :: "8 word list \<Rightarrow> nat \<Rightarrow> bool" where
  "start_code3 buf p \<longleftrightarrow> buf ! p = 0 \<and> buf ! (p + 1) = 0 \<and> buf ! (p + 2) = 1"

definition start_code4 :: "8 word list \<Rightarrow> nat \<Rightarrow> bool" where
  "start_code4 buf p \<longleftrightarrow>
     p + 4 < length buf \<and> buf ! p = 0 \<and> buf ! (p + 1) = 0 \<and> buf ! (p + 2) = 0 \<and>
     buf ! (p + 3) = 1"

text \<open>
  The scanning loop that occurs, with the same two tests, as the search for a start code
  and as the search for the end of the NAL unit:
  \<^verbatim>\<open>for (; p + 3 < e; ++p) { if (3-byte code at p) break; if (p + 4 < e && 4-byte code at p) break; }\<close>.
  The result is where \<^verbatim>\<open>p\<close> stands when the loop is left: at a start code if
  \<^verbatim>\<open>p + 3 < e\<close> still holds, and otherwise at the first position with \<^verbatim>\<open>p + 3 >= e\<close>.
\<close>

function scan_start_code :: "8 word list \<Rightarrow> nat \<Rightarrow> nat" where
  "scan_start_code buf p =
     (if p + 3 < length buf then
        (if start_code3 buf p \<or> start_code4 buf p then p else scan_start_code buf (p + 1))
      else p)"
  by pat_completeness auto
termination
  by (relation "measure (\<lambda>(buf, p). length buf - p)") auto

declare scan_start_code.simps [simp del]

lemma scan_start_code_ge: "p \<le> scan_start_code buf p"
proof (induction buf p rule: scan_start_code.induct)
  case (1 buf p)
  show ?case
  proof (cases "p + 3 < length buf \<and> \<not> (start_code3 buf p \<or> start_code4 buf p)")
    case True
    then have "p + 1 \<le> scan_start_code buf (p + 1)" using "1.IH" by simp
    moreover have "scan_start_code buf p = scan_start_code buf (p + 1)"
      using True by (subst scan_start_code.simps) simp
    ultimately show ?thesis by simp
  next
    case False
    then have "scan_start_code buf p = p" by (subst scan_start_code.simps) auto
    then show ?thesis by simp
  qed
qed

text \<open>
  The NAL units that one pass over a buffer comes across, from position \<^verbatim>\<open>s\<close> on: the
  body of \<^verbatim>\<open>while (s + 3 < e)\<close> finds a start code (or leaves the loop), finds
  \<^verbatim>\<open>next\<close>, and has a NAL unit to look at when \<^verbatim>\<open>nal_len > 0\<close>.  Both passes scan the
  same unchanged buffer, so they come across the same units.
\<close>

function annexb_nals :: "8 word list \<Rightarrow> nat \<Rightarrow> 8 word list list" where
  "annexb_nals buf s =
     (if s + 3 < length buf then
        (let sc = scan_start_code buf s in
         if sc + 3 < length buf then
           (let sc_len = (if buf ! (sc + 2) = 1 then 3 else 4);
                nal_start = sc + sc_len;
                next = scan_start_code buf nal_start;
                nal_len = next - nal_start
            in (if nal_len > 0 then [take nal_len (drop nal_start buf)] else []) @
               annexb_nals buf next)
         else [])
      else [])"
  by pat_completeness auto
termination
proof (relation "measure (\<lambda>(buf, s). length buf - s)", goal_cases)
  case 1
  show ?case by simp
next
  case (2 buf s sc sc_len nal_start "next" nal_len)
  have "s \<le> sc" using 2 scan_start_code_ge [of s buf] by simp
  moreover have "sc < nal_start" using 2 by simp
  moreover have "nal_start \<le> next" using 2 scan_start_code_ge [of nal_start buf] by simp
  ultimately show ?case using 2 by simp
qed

text \<open>The quick scan \<^verbatim>\<open>for (p = b; p + 3 < e; ++p)\<close> for a 3-byte start code.\<close>

definition has_start_codes :: "8 word list \<Rightarrow> bool" where
  "has_start_codes buf = list_ex (start_code3 buf) [0..<length buf - 3]"

text \<open>
  The units of a buffer of 4-byte big-endian length-prefixed NAL units: the loop
  \<^verbatim>\<open>while (p + 4 <= e)\<close> stops at a zero length or at a length that runs past the end.
\<close>

function lenpref_nals :: "8 word list \<Rightarrow> 8 word list list" where
  "lenpref_nals rest =
     (if 4 \<le> length rest then
        (let nal_len = unat (push_bit 24 (ucast (rest ! 0) :: 32 word) OR
                             push_bit 16 (ucast (rest ! 1)) OR
                             push_bit 8 (ucast (rest ! 2)) OR ucast (rest ! 3));
             body = drop 4 rest
         in if nal_len = 0 \<or> nal_len > length body then []
            else take nal_len body # lenpref_nals (drop nal_len body))
      else [])"
  by pat_completeness auto
termination
  by (relation "measure length") auto

declare annexb_nals.simps [simp del]
declare lenpref_nals.simps [simp del]

subsection \<open>The two passes\<close>

text \<open>First pass (all four sites): parameter sets only, results ignored.\<close>

fun param_set_pass :: "hls_player \<Rightarrow> 8 word list list \<Rightarrow> hls_player" where
  "param_set_pass s [] = s"
| "param_set_pass s (nal # nals) =
     (if simple_h264_is_parameter_set (simple_h264_get_nal_type nal)
      then param_set_pass (snd (process_h264_nal_unit s nal)) nals
      else param_set_pass s nals)"

text \<open>
  Second pass while a PES buffer is flushed in the middle of a segment (lines 437-466 and
  485-498): after a displayed frame the user may quit, which is a \<^verbatim>\<open>return 1\<close> from the
  callback (Boolean \<^verbatim>\<open>True\<close>).
\<close>

fun ts_slice_pass :: "hls_player \<Rightarrow> 8 word list list \<Rightarrow> bool \<times> hls_player" where
  "ts_slice_pass s [] = (False, s)"
| "ts_slice_pass s (nal # nals) =
     (if \<not> simple_h264_is_parameter_set (simple_h264_get_nal_type nal) then
        (case process_h264_nal_unit s nal of (r, s1) \<Rightarrow>
           if r \<noteq> 0 then
             (case poll_quit s1 of
                (True, s2) \<Rightarrow> (True, s2)
              | (False, s2) \<Rightarrow> ts_slice_pass s2 nals)
           else ts_slice_pass s1 nals)
      else ts_slice_pass s nals)"

text \<open>Second pass of the final flush (lines 573-598): no poll.\<close>

fun final_slice_pass :: "hls_player \<Rightarrow> 8 word list list \<Rightarrow> hls_player" where
  "final_slice_pass s [] = s"
| "final_slice_pass s (nal # nals) =
     (if \<not> simple_h264_is_parameter_set (simple_h264_get_nal_type nal)
      then final_slice_pass (snd (process_h264_nal_unit s nal)) nals
      else final_slice_pass s nals)"

text \<open>
  Second pass of the fallback for segments that are not MPEG-TS (lines 634-660): it stops
  at the first displayed frame.
\<close>

fun fallback_slice_pass :: "hls_player \<Rightarrow> 8 word list list \<Rightarrow> bool \<times> hls_player" where
  "fallback_slice_pass s [] = (False, s)"
| "fallback_slice_pass s (nal # nals) =
     (if \<not> simple_h264_is_parameter_set (simple_h264_get_nal_type nal) then
        (case process_h264_nal_unit s nal of (r, s1) \<Rightarrow>
           if r \<noteq> 0 then poll_quit s1 else fallback_slice_pass s1 nals)
      else fallback_slice_pass s nals)"

text \<open>The fallback as a whole (lines 603-661); the result is the callback's return value.\<close>

definition annexb_fallback :: "hls_player \<Rightarrow> 8 word list \<Rightarrow> int \<times> hls_player" where
  "annexb_fallback s data =
     (case fallback_slice_pass (param_set_pass s (annexb_nals data 0)) (annexb_nals data 0) of
        (True, s') \<Rightarrow> (1, s')
      | (False, s') \<Rightarrow> (0, s'))"

subsection \<open>Flushing an assembled PES payload\<close>

text \<open>
  The display of a frame that the decoder returned for a whole PES payload (lines
  370-390).  A failure of \<^verbatim>\<open>init_video_output\<close> is ignored here, and the RGB buffer is
  tested only after the size was recorded.  \<^verbatim>\<open>True\<close> is \<^verbatim>\<open>return 1\<close>.
\<close>

definition whole_feed_display :: "hls_player \<Rightarrow> simple_h264_frame_t \<Rightarrow> bool \<times> hls_player" where
  "whole_feed_display s frame =
     (let s1 = (if \<not> video s then snd (init_video_output s) else s);
          realloc = (\<not> rgb_buffer s1 \<or> last_w_all s1 \<noteq> frame_width frame \<or>
                     last_h_all s1 \<noteq> frame_height frame);
          s2 = (if realloc
                then s1\<lparr>rgb_buffer := alloc_ok (heap s1), heap := alloc_rest (heap s1),
                        last_w_all := frame_width frame, last_h_all := frame_height frame\<rparr>
                else s1)
      in if rgb_buffer s2 then
           (let s3 = video_draw s2 (frame_width frame) (frame_height frame);
                s4 = pace_frame (s3\<lparr>frames_displayed := frames_displayed s3 + 1\<rparr>)
            in poll_quit s4)
         else (False, s2))"

text \<open>
  Lines 340-502 without the final \<^verbatim>\<open>free\<close>: the whole payload is offered to the
  decoder, then it is split into NAL units, by start codes if the quick scan finds one
  and by length prefixes otherwise, and the units go through the two passes.
\<close>

definition flush_pes :: "hls_player \<Rightarrow> 8 word list \<Rightarrow> bool \<times> hls_player" where
  "flush_pes s pes_buf =
     (case feed_decoder s pes_buf of (result_all, frame_all, s1) \<Rightarrow>
        (case (if has_picture result_all frame_all then whole_feed_display s1 frame_all
               else (False, s1)) of
           (True, s2) \<Rightarrow> (True, s2)
         | (False, s2) \<Rightarrow>
             (let nals = (if has_start_codes pes_buf then annexb_nals pes_buf 0
                          else lenpref_nals pes_buf)
              in ts_slice_pass (param_set_pass s2 nals) nals)))"

text \<open>
  The final flush after the packet loop (lines 529-602): start codes only, no whole feed,
  no poll.
\<close>

definition final_flush :: "hls_player \<Rightarrow> 8 word list \<Rightarrow> hls_player" where
  "final_flush s pes_buf =
     (if pes_buf \<noteq> [] \<and> has_start_codes pes_buf
      then final_slice_pass (param_set_pass s (annexb_nals pes_buf 0)) (annexb_nals pes_buf 0)
      else s)"

subsection \<open>The transport-stream packet loop\<close>

text \<open>
  The search for the sync offset (lines 304-309).  \<^verbatim>\<open>(int)size\<close> is the 32-bit signed
  reading of the size.  \<^verbatim>\<open>None\<close> is the value -1.
\<close>

definition sync_at :: "8 word list \<Rightarrow> nat \<Rightarrow> bool" where
  "sync_at seg off \<longleftrightarrow>
     seg ! off = 0x47 \<and> seg ! (off + 188) = 0x47 \<and> seg ! (off + 376) = 0x47"

function find_sync_offset :: "8 word list \<Rightarrow> nat \<Rightarrow> nat option" where
  "find_sync_offset seg off =
     (if off < 188 then
        (if int off + 188 * 3 > sint (word_of_nat (length seg) :: 32 word) then None
         else if sync_at seg off then Some off
         else find_sync_offset seg (off + 1))
      else None)"
  by pat_completeness auto
termination
  by (relation "measure (\<lambda>(seg, off). 188 - off)") auto

declare find_sync_offset.simps [simp del]

definition sync_offset :: "8 word list \<Rightarrow> nat" where
  "sync_offset seg = (case find_sync_offset seg 0 of None \<Rightarrow> 0 | Some off \<Rightarrow> off)"

text \<open>The packets \<^verbatim>\<open>seg + pos\<close> of \<^verbatim>\<open>for (pos = sync_offset; pos + 188 <= size; pos += 188)\<close>.\<close>

function ts_packets :: "8 word list \<Rightarrow> nat \<Rightarrow> 8 word list list" where
  "ts_packets seg pos =
     (if pos + 188 \<le> length seg
      then take 188 (drop pos seg) # ts_packets seg (pos + 188)
      else [])"
  by pat_completeness auto
termination
  by (relation "measure (\<lambda>(seg, pos). length seg - pos)") auto

declare ts_packets.simps [simp del]

datatype loop_control = Continue | Break | Return1

text \<open>
  The part of a packet that the loop body works on: \<^verbatim>\<open>None\<close> where the body says
  \<^verbatim>\<open>continue\<close> before it has a payload, otherwise the unit-start flag, the PID and the
  payload bytes.
\<close>

definition ts_payload :: "8 word list \<Rightarrow> (bool \<times> nat \<times> 8 word list) option" where
  "ts_payload pkt =
     (if pkt ! 0 \<noteq> 0x47 then None
      else
        (let payload_unit_start = (pkt ! 1 AND 0x40 \<noteq> 0);
             pid = unat (push_bit 8 (ucast (pkt ! 1 AND 0x1F) :: 32 word) OR ucast (pkt ! 2));
             afc = drop_bit 4 (pkt ! 3 AND 0x30)
         in if afc = 2 then None
            else
              (let payload_offset = (if afc = 3 then 5 + unat (pkt ! 4) else 4)
               in if payload_offset \<ge> 188 then None
                  else Some (payload_unit_start, pid, drop payload_offset pkt))))"

text \<open>
  One iteration of the packet loop (lines 311-526) on the 188 bytes \<^verbatim>\<open>pkt\<close>, with the
  local variables \<^verbatim>\<open>video_pid\<close> (\<^verbatim>\<open>None\<close> for -1) and \<^verbatim>\<open>pes_buf\<close>
  (\<^verbatim>\<open>pes_buf_len\<close> is its length).
\<close>

definition ts_packet ::
  "hls_player \<Rightarrow> nat option \<Rightarrow> 8 word list \<Rightarrow> 8 word list \<Rightarrow>
   loop_control \<times> hls_player \<times> nat option \<times> 8 word list" where
  "ts_packet s video_pid pes_buf pkt =
     (case ts_payload pkt of
        None \<Rightarrow> (Continue, s, video_pid, pes_buf)
      | Some (payload_unit_start, pid, payload) \<Rightarrow>
          (let payload_len = length payload;
               pes_start = (payload ! 0 = 0 \<and> payload ! 1 = 0 \<and> payload ! 2 = 1);
               video_pid1 =
                 (if video_pid = None \<and> payload_unit_start \<and> payload_len \<ge> 6 \<and> pes_start \<and>
                     payload ! 3 AND 0xF0 = 0xE0
                  then Some pid else video_pid)
           in if video_pid1 = Some pid then
                (case (if payload_unit_start \<and> pes_buf \<noteq> []
                       then (case flush_pes s pes_buf of (q, s') \<Rightarrow> (q, s', []))
                       else (False, s, pes_buf)) of
                   (True, s1, pes_buf1) \<Rightarrow> (Return1, s1, video_pid1, pes_buf1)
                 | (False, s1, pes_buf1) \<Rightarrow>
                     (if payload_unit_start \<and> payload_len \<ge> 9 \<and> pes_start then
                        (let data_start = 9 + unat (payload ! 8)
                         in if data_start \<le> payload_len then
                              (if \<not> alloc_ok (heap s1)
                               then (Break, s1\<lparr>heap := alloc_rest (heap s1)\<rparr>, video_pid1, [])
                               else (Continue, s1\<lparr>heap := alloc_rest (heap s1)\<rparr>, video_pid1,
                                     pes_buf1 @ drop data_start payload))
                            else (Continue, s1, video_pid1, pes_buf1))
                      else
                        (if \<not> alloc_ok (heap s1)
                         then (Break, s1\<lparr>heap := alloc_rest (heap s1)\<rparr>, video_pid1, [])
                         else (Continue, s1\<lparr>heap := alloc_rest (heap s1)\<rparr>, video_pid1,
                               pes_buf1 @ payload))))
              else (Continue, s, video_pid1, pes_buf)))"

text \<open>The loop over the packets; \<^verbatim>\<open>True\<close> is a \<^verbatim>\<open>return 1\<close> from inside the loop.\<close>

fun ts_loop ::
  "hls_player \<Rightarrow> nat option \<Rightarrow> 8 word list \<Rightarrow> 8 word list list \<Rightarrow>
   bool \<times> hls_player \<times> 8 word list" where
  "ts_loop s video_pid pes_buf [] = (False, s, pes_buf)"
| "ts_loop s video_pid pes_buf (pkt # pkts) =
     (case ts_packet s video_pid pes_buf pkt of
        (Continue, s', video_pid', pes_buf') \<Rightarrow> ts_loop s' video_pid' pes_buf' pkts
      | (Break, s', video_pid', pes_buf') \<Rightarrow> (False, s', pes_buf')
      | (Return1, s', video_pid', pes_buf') \<Rightarrow> (True, s', pes_buf'))"

text \<open>The branch for MPEG-TS segments (lines 297-602).\<close>

definition ts_demux :: "hls_player \<Rightarrow> 8 word list \<Rightarrow> int \<times> hls_player" where
  "ts_demux s seg =
     (case ts_loop s None [] (ts_packets seg (sync_offset seg)) of
        (True, s', pes_buf) \<Rightarrow> (1, s')
      | (False, s', pes_buf) \<Rightarrow> (0, final_flush s' pes_buf))"

subsection \<open>The callback\<close>

text \<open>
  The display of a frame that the decoder returned for the whole segment (lines 247-282):
  -1 when the video output or the RGB buffer cannot be set up.
\<close>

definition segment_display :: "hls_player \<Rightarrow> simple_h264_frame_t \<Rightarrow> int \<times> hls_player" where
  "segment_display s frame =
     (case (if \<not> video s then init_video_output s else (True, s)) of
        (False, s1) \<Rightarrow> (- 1, s1)
      | (True, s1) \<Rightarrow>
          (let realloc = (\<not> rgb_buffer s1 \<or> hls_last_w s1 \<noteq> frame_width frame \<or>
                          hls_last_h s1 \<noteq> frame_height frame)
           in if realloc \<and> \<not> alloc_ok (heap s1)
              then (- 1, s1\<lparr>rgb_buffer := False, heap := alloc_rest (heap s1)\<rparr>)
              else
                (let s2 = (if realloc
                           then s1\<lparr>rgb_buffer := True, heap := alloc_rest (heap s1),
                                   hls_last_w := frame_width frame,
                                   hls_last_h := frame_height frame\<rparr>
                           else s1);
                     s3 = video_draw s2 (frame_width frame) (frame_height frame);
                     s4 = pace_frame (s3\<lparr>frames_displayed := frames_displayed s3 + 1\<rparr>)
                 in (case poll_quit s4 of (True, s5) \<Rightarrow> (1, s5) | (False, s5) \<Rightarrow> (0, s5)))))"

text \<open>The test of line 297: \<^verbatim>\<open>size >= 188 && seg[0] == 0x47\<close>.\<close>

definition is_ts_segment :: "8 word list \<Rightarrow> bool" where
  "is_ts_segment data \<longleftrightarrow> 188 \<le> length data \<and> data ! 0 = 0x47"

text \<open>\<^verbatim>\<open>hls_segment_callback(data, size, user_data)\<close>.\<close>

definition hls_segment_callback :: "hls_player \<Rightarrow> 8 word list \<Rightarrow> int \<times> hls_player" where
  "hls_segment_callback s data =
     (case poll_quit s of
        (True, s1) \<Rightarrow> (1, s1)
      | (False, s1) \<Rightarrow>
          if should_quit_hls s1 then (1, s1)
          else if use_custom_decoder s1 = 1 then
            (case feed_decoder s1 data of (result, frame, s2) \<Rightarrow>
               if has_picture result frame then segment_display s2 frame
               else if is_ts_segment data then ts_demux s2 data
               else annexb_fallback s2 data)
          else (0, s1))"

text \<open>
  The player as \<^verbatim>\<open>main\<close> leaves it before it calls \<^verbatim>\<open>hls_process_stream\<close>: a fresh
  decoder, \<^verbatim>\<open>use_custom_decoder = 1\<close>, no video output yet, and an outside world in which
  nothing fails and nobody asks to quit.
\<close>

definition initial_player :: hls_player where
  "initial_player =
     \<lparr>last_frame_time = 0, frame_duration_us = 33333, frames_dropped = 0, frames_displayed = 0,
      rgb_buffer = False, video = False,
      h264_decoder = Some simple_h264_create, use_custom_decoder = 1, should_quit_hls = False,
      hls_last_w = 0, hls_last_h = 0, last_w_all = 0, last_h_all = 0, last_w = 0, last_h = 0,
      heap = [], polls = [], clock = [], video_creates = [], decoder_feeds = [],
      video_draw_calls = []\<rparr>"

text \<open>
  The heuristic of the specification, for comparison with \<^const>\<open>is_ts_segment\<close>: three
  packets spaced 188 bytes apart all begin with 0x47.
\<close>

definition three_sync_bytes :: "8 word list \<Rightarrow> bool" where
  "three_sync_bytes data \<longleftrightarrow>
     (\<exists>off<188. off + 188 * 3 \<le> length data \<and> sync_at data off)"

text \<open>
  A synthetic stream of three packets: PID 17 starts a PES packet (stream id 0xE0, header
  data length 0) that carries the bytes 1, 2, 3; a second packet of PID 17 continues it
  with 4, 5, 6; the third packet has another PID.  Adaptation fields pad the first two
  packets.
\<close>

definition sample_ts_stream :: "8 word list" where
  "sample_ts_stream =
     [0x47, 0x40, 0x11, 0x30, 171, 0] @ replicate 170 0xFF @
       [0, 0, 1, 0xE0, 0, 0, 0x80, 0, 0, 1, 2, 3] @
     [0x47, 0x00, 0x11, 0x30, 180, 0] @ replicate 179 0xFF @ [4, 5, 6] @
     [0x47, 0x00, 0x12, 0x10] @ replicate 184 9"

section \<open>Properties of the frame pacer\<close>

lemma ensure_scaler_unhindered:
  assumes "render_unhindered e"
  shows "\<exists>s'. ensure_scaler s e = Inr s' \<and> skip_remaining s' = skip_remaining s \<and>
           frames_displayed s' = frames_displayed s \<and> frames_dropped s' = frames_dropped s \<and>
           should_quit s' = should_quit s \<and> last_frame_time s' = last_frame_time s \<and>
           frame_duration_us s' = frame_duration_us s"
  using assms by (simp add: ensure_scaler_def render_unhindered_def Let_def)

lemma main_frame_event_renders:
  assumes "render_unhindered e" and "skip_remaining s \<le> 0"
  shows "\<exists>s'. main_frame_event cfg s e = (Rendered, s') \<and>
           skip_remaining s' = FRAMESKIP_AMOUNT cfg \<and>
           frames_displayed s' = frames_displayed s + 1 \<and>
           frames_dropped s' = frames_dropped s \<and> should_quit s' = should_quit s \<and>
           last_frame_time s' = time_after_sleep e"
proof -
  let ?s1 = "s\<lparr>last_frame_time := time_after_sleep e\<rparr>"
  obtain s2 where s2: "ensure_scaler ?s1 e = Inr s2"
    "skip_remaining s2 = skip_remaining s" "frames_displayed s2 = frames_displayed s"
    "frames_dropped s2 = frames_dropped s" "should_quit s2 = should_quit s"
    "last_frame_time s2 = time_after_sleep e"
    using ensure_scaler_unhindered [OF assms(1), of ?s1] by auto
  with assms show ?thesis
    by (simp add: main_frame_event_def Let_def render_unhindered_def)
qed

lemma main_frame_event_drops:
  assumes "\<not> DISABLE_FRAMESKIP cfg" and "0 < FRAMESKIP_AMOUNT cfg" and "0 < skip_remaining s"
  shows "main_frame_event cfg s e =
           (Dropped, s\<lparr>frames_dropped := frames_dropped s + 1,
                       skip_remaining := skip_remaining s - 1,
                       last_frame_time := last_frame_time s + frame_duration_us s\<rparr>)"
  using assms by (simp add: main_frame_event_def)

lemma render_then_three_drops:
  assumes cfg: "FRAMESKIP_AMOUNT cfg = 3" "\<not> DISABLE_FRAMESKIP cfg"
    and s: "skip_remaining s = 0" "\<not> should_quit s"
    and e: "render_unhindered e1"
  shows "\<exists>s1 s2 s3 s4.
           run_frames (main_frame_event cfg) s (e1 # e2 # e3 # e4 # es) =
             (Rendered, s1) # (Dropped, s2) # (Dropped, s3) # (Dropped, s4) #
             run_frames (main_frame_event cfg) s4 es \<and>
           skip_remaining s1 = 3 \<and> skip_remaining s2 = 2 \<and> skip_remaining s3 = 1 \<and>
           skip_remaining s4 = 0 \<and> \<not> should_quit s4 \<and>
           frames_displayed s4 = frames_displayed s + 1 \<and>
           frames_dropped s4 = frames_dropped s + 3"
proof -
  obtain s1 where s1: "main_frame_event cfg s e1 = (Rendered, s1)" "skip_remaining s1 = 3"
    "frames_displayed s1 = frames_displayed s + 1" "frames_dropped s1 = frames_dropped s"
    "\<not> should_quit s1"
    using main_frame_event_renders [OF e, of s cfg] cfg s by auto
  define s2 where "s2 = s1\<lparr>frames_dropped := frames_dropped s1 + 1,
      skip_remaining := skip_remaining s1 - 1,
      last_frame_time := last_frame_time s1 + frame_duration_us s1\<rparr>"
  define s3 where "s3 = s2\<lparr>frames_dropped := frames_dropped s2 + 1,
      skip_remaining := skip_remaining s2 - 1,
      last_frame_time := last_frame_time s2 + frame_duration_us s2\<rparr>"
  define s4 where "s4 = s3\<lparr>frames_dropped := frames_dropped s3 + 1,
      skip_remaining := skip_remaining s3 - 1,
      last_frame_time := last_frame_time s3 + frame_duration_us s3\<rparr>"
  have d2: "main_frame_event cfg s1 e2 = (Dropped, s2)"
    unfolding s2_def using cfg s1 by (intro main_frame_event_drops) simp_all
  have k2: "skip_remaining s2 = 2" "\<not> should_quit s2" using s1 by (simp_all add: s2_def)
  have d3: "main_frame_event cfg s2 e3 = (Dropped, s3)"
    unfolding s3_def using cfg k2 by (intro main_frame_event_drops) simp_all
  have k3: "skip_remaining s3 = 1" "\<not> should_quit s3" using k2 by (simp_all add: s3_def)
  have d4: "main_frame_event cfg s3 e4 = (Dropped, s4)"
    unfolding s4_def using cfg k3 by (intro main_frame_event_drops) simp_all
  have k4: "skip_remaining s4 = 0" "\<not> should_quit s4" using k3 by (simp_all add: s4_def)
  have c4: "frames_displayed s4 = frames_displayed s + 1" "frames_dropped s4 = frames_dropped s + 3"
    using s1 by (simp_all add: s4_def s3_def s2_def)
  have "run_frames (main_frame_event cfg) s (e1 # e2 # e3 # e4 # es) =
          (Rendered, s1) # (Dropped, s2) # (Dropped, s3) # (Dropped, s4) #
          run_frames (main_frame_event cfg) s4 es"
    using s s1 d2 k2 d3 k3 d4 by (simp add: Let_def)
  with s1 k2 k3 k4 c4 show ?thesis by blast
qed

text \<open>
  Claim C4.  With \<^verbatim>\<open>FRAMESKIP_AMOUNT = 3\<close> and frame skipping compiled in, eight
  consecutive decoded frames that start from \<^verbatim>\<open>skip_remaining = 0\<close> and whose
  rendering meets no obstacle are processed as rendered, dropped, dropped, dropped,
  rendered, dropped, dropped, dropped: two frames displayed and six dropped, and
  \<^verbatim>\<open>skip_remaining\<close> is 3 again after each rendered frame.
\<close>

theorem pacing_pattern_skip3:
  assumes "FRAMESKIP_AMOUNT cfg = 3" and "\<not> DISABLE_FRAMESKIP cfg"
    and "skip_remaining s = 0" and "\<not> should_quit s"
    and "length es = 8" and "\<forall>e \<in> set es. render_unhindered e"
  shows "map fst (run_frames (main_frame_event cfg) s es) =
           [Rendered, Dropped, Dropped, Dropped, Rendered, Dropped, Dropped, Dropped] \<and>
         map (skip_remaining \<circ> snd) (run_frames (main_frame_event cfg) s es) =
           [3, 2, 1, 0, 3, 2, 1, 0] \<and>
         frames_displayed (snd (last (run_frames (main_frame_event cfg) s es))) =
           frames_displayed s + 2 \<and>
         frames_dropped (snd (last (run_frames (main_frame_event cfg) s es))) =
           frames_dropped s + 6"
proof -
  obtain e1 e2 e3 e4 e5 e6 e7 e8 where es: "es = [e1, e2, e3, e4, e5, e6, e7, e8]"
    using assms(5) by (auto simp: length_Suc_conv eval_nat_numeral)
  have e1: "render_unhindered e1" and e5: "render_unhindered e5"
    using assms(6) es by simp_all
  obtain s1 s2 s3 s4 where a:
    "run_frames (main_frame_event cfg) s es =
       (Rendered, s1) # (Dropped, s2) # (Dropped, s3) # (Dropped, s4) #
       run_frames (main_frame_event cfg) s4 [e5, e6, e7, e8]"
    "skip_remaining s1 = 3" "skip_remaining s2 = 2" "skip_remaining s3 = 1"
    "skip_remaining s4 = 0" "\<not> should_quit s4"
    "frames_displayed s4 = frames_displayed s + 1" "frames_dropped s4 = frames_dropped s + 3"
    using render_then_three_drops [OF assms(1-4) e1, of e2 e3 e4 "[e5, e6, e7, e8]"]
    unfolding es by blast
  obtain t1 t2 t3 t4 where b:
    "run_frames (main_frame_event cfg) s4 [e5, e6, e7, e8] =
       (Rendered, t1) # (Dropped, t2) # (Dropped, t3) # (Dropped, t4) #
       run_frames (main_frame_event cfg) t4 []"
    "skip_remaining t1 = 3" "skip_remaining t2 = 2" "skip_remaining t3 = 1"
    "skip_remaining t4 = 0"
    "frames_displayed t4 = frames_displayed s4 + 1" "frames_dropped t4 = frames_dropped s4 + 3"
    using render_then_three_drops [OF assms(1,2) a(5,6) e5, of e6 e7 e8 "[]"] by blast
  show ?thesis using a b by simp
qed

theorem pacing_pattern_skip3_witness:
  "map fst (run_frames (main_frame_event default_config) sample_pacing_state
              (replicate 8 sample_frame_event)) =
     [Rendered, Dropped, Dropped, Dropped, Rendered, Dropped, Dropped, Dropped] \<and>
   map (skip_remaining \<circ> snd)
       (run_frames (main_frame_event default_config) sample_pacing_state
              (replicate 8 sample_frame_event)) = [3, 2, 1, 0, 3, 2, 1, 0] \<and>
   frames_displayed (snd (last (run_frames (main_frame_event default_config)
              sample_pacing_state (replicate 8 sample_frame_event)))) = 2 \<and>
   frames_dropped (snd (last (run_frames (main_frame_event default_config)
              sample_pacing_state (replicate 8 sample_frame_event)))) = 6"
proof -
  have h: "FRAMESKIP_AMOUNT default_config = 3" "\<not> DISABLE_FRAMESKIP default_config"
    "skip_remaining sample_pacing_state = 0" "\<not> should_quit sample_pacing_state"
    "length (replicate 8 sample_frame_event) = 8"
    "\<forall>e \<in> set (replicate 8 sample_frame_event). render_unhindered e"
    by (simp_all add: default_config_def sample_pacing_state_def sample_frame_event_def
          render_unhindered_def)
  have c: "frames_displayed sample_pacing_state = 0" "frames_dropped sample_pacing_state = 0"
    by (simp_all add: sample_pacing_state_def)
  show ?thesis using pacing_pattern_skip3 [OF h] c by simp
qed

text \<open>
  Claim C5 (as amended).  While frame skipping is compiled in with a positive
  \<^verbatim>\<open>FRAMESKIP_AMOUNT\<close>, a decoded frame that arrives with \<^verbatim>\<open>skip_remaining > 0\<close>
  is not rendered, the dropped count goes up by one and \<^verbatim>\<open>skip_remaining\<close> down by
  one.  In \<^verbatim>\<open>src/src/main.c\<close> the skip branch advances \<^verbatim>\<open>last_frame_time\<close> by
  \<^verbatim>\<open>frame_duration_us\<close>; only the variant in \<^verbatim>\<open>src/unnamed/part_004\<close> leaves
  \<^verbatim>\<open>last_frame_time\<close> unchanged.
\<close>

theorem skipped_frame_effects:
  assumes "\<not> DISABLE_FRAMESKIP cfg" and "0 < FRAMESKIP_AMOUNT cfg" and "0 < skip_remaining s"
  shows "fst (main_frame_event cfg s e) = Dropped \<and>
         frames_displayed (snd (main_frame_event cfg s e)) = frames_displayed s \<and>
         frames_dropped (snd (main_frame_event cfg s e)) = frames_dropped s + 1 \<and>
         skip_remaining (snd (main_frame_event cfg s e)) = skip_remaining s - 1 \<and>
         last_frame_time (snd (main_frame_event cfg s e)) =
           last_frame_time s + frame_duration_us s \<and>
         fst (part004_frame_event cfg s e) = Dropped \<and>
         frames_displayed (snd (part004_frame_event cfg s e)) = frames_displayed s \<and>
         frames_dropped (snd (part004_frame_event cfg s e)) = frames_dropped s + 1 \<and>
         skip_remaining (snd (part004_frame_event cfg s e)) = skip_remaining s - 1 \<and>
         last_frame_time (snd (part004_frame_event cfg s e)) = last_frame_time s"
  using assms by (simp add: main_frame_event_def part004_frame_event_def)

theorem skipped_frame_effects_witness:
  "fst (main_frame_event default_config (sample_pacing_state\<lparr>skip_remaining := 2\<rparr>)
          sample_frame_event) = Dropped \<and>
   last_frame_time (snd (main_frame_event default_config
          (sample_pacing_state\<lparr>skip_remaining := 2\<rparr>) sample_frame_event)) = 1033333 \<and>
   last_frame_time (snd (part004_frame_event default_config
          (sample_pacing_state\<lparr>skip_remaining := 2\<rparr>) sample_frame_event)) = 1000000"
proof -
  have h: "\<not> DISABLE_FRAMESKIP default_config" "0 < FRAMESKIP_AMOUNT default_config"
    "0 < skip_remaining (sample_pacing_state\<lparr>skip_remaining := 2\<rparr>)"
    by (simp_all add: default_config_def)
  show ?thesis
    using skipped_frame_effects [OF h, of sample_frame_event]
    by (simp add: sample_pacing_state_def)
qed

text \<open>
  The claim as written fails on \<^verbatim>\<open>src/src/main.c\<close>: a frame skipped there moves
  \<^verbatim>\<open>last_frame_time\<close> from 1000000 to 1033333.
\<close>

theorem skipped_frame_moves_last_frame_time:
  "skip_remaining (sample_pacing_state\<lparr>skip_remaining := 2\<rparr>) > 0 \<and>
   fst (main_frame_event default_config (sample_pacing_state\<lparr>skip_remaining := 2\<rparr>)
          sample_frame_event) = Dropped \<and>
   last_frame_time (snd (main_frame_event default_config
          (sample_pacing_state\<lparr>skip_remaining := 2\<rparr>) sample_frame_event)) \<noteq>
   last_frame_time (sample_pacing_state\<lparr>skip_remaining := 2\<rparr>)"
  by (simp add: main_frame_event_def default_config_def sample_pacing_state_def)

section \<open>Properties of the parameter-set / slice state machine\<close>










section \<open>Properties of the playlist parser\<close>

lemma parse_line_type:
  "type (fst (snd (parse_line os t cur p))) = (case line_kind t of None \<Rightarrow> type p | Some k \<Rightarrow> k)"
  by (simp add: parse_line_def line_kind_def Let_def)

lemma parse_line_error:
  "fst (parse_line os t cur p) = Inl e \<Longrightarrow> e = HLS_ERROR_MEMORY"
  by (simp add: parse_line_def Let_def split: if_splits)

lemma parse_lines_type:
  "fst (parse_lines os lines cur p) = HLS_OK \<Longrightarrow>
   type (fst (snd (parse_lines os lines cur p))) = last_kind (type p) lines"
proof (induction lines arbitrary: os cur p)
  case Nil
  then show ?case by simp
next
  case (Cons line lines)
  show ?case
  proof (cases "alloc_ok os")
    case False
    with Cons.prems show ?thesis by simp
  next
    case True
    obtain r p' os' where pl: "parse_line (alloc_rest os) (trim line) cur p = (r, p', os')"
      by (cases "parse_line (alloc_rest os) (trim line) cur p") auto
    have ty: "type p' = (case line_kind (trim line) of None \<Rightarrow> type p | Some k \<Rightarrow> k)"
      using parse_line_type [of "alloc_rest os" "trim line" cur p] pl by simp
    show ?thesis
    proof (cases r)
      case (Inl e)
      then have "e = HLS_ERROR_MEMORY" using parse_line_error [of "alloc_rest os" "trim line" cur p] pl by simp
      with Cons.prems True pl Inl show ?thesis by simp
    next
      case (Inr cur')
      with Cons.prems True pl have "fst (parse_lines os' lines cur' p') = HLS_OK" by simp
      from Cons.IH [OF this] True pl Inr ty show ?thesis by simp
    qed
  qed
qed

lemma parse_lines_result:
  "fst (parse_lines os lines cur p) = HLS_OK \<or> fst (parse_lines os lines cur p) = HLS_ERROR_MEMORY"
proof (induction lines arbitrary: os cur p)
  case Nil
  then show ?case by simp
next
  case (Cons line lines)
  show ?case
  proof (cases "alloc_ok os")
    case False
    then show ?thesis by simp
  next
    case True
    obtain r p' os' where pl: "parse_line (alloc_rest os) (trim line) cur p = (r, p', os')"
      by (cases "parse_line (alloc_rest os) (trim line) cur p") auto
    show ?thesis
    proof (cases r)
      case (Inl e)
      then have "e = HLS_ERROR_MEMORY" using parse_line_error [of "alloc_rest os" "trim line" cur p] pl by simp
      with True pl Inl show ?thesis by simp
    next
      case (Inr cur')
      with Cons.IH [of os' cur' p'] True pl show ?thesis by simp
    qed
  qed
qed

lemma alloc_rest_all: "allocs_succeed os \<Longrightarrow> allocs_succeed (alloc_rest os)"
  by (cases os) (auto simp: alloc_rest_def allocs_succeed_def)

lemma alloc_ok_all: "allocs_succeed os \<Longrightarrow> alloc_ok os"
  by (cases os) (auto simp: alloc_ok_def allocs_succeed_def)

lemma parse_line_all_ok:
  assumes "allocs_succeed os"
  shows "\<exists>cur'. fst (parse_line os t cur p) = Inr cur'"
    and "allocs_succeed (snd (snd (parse_line os t cur p)))"
  using assms alloc_ok_all [OF assms] alloc_rest_all [OF assms]
    alloc_ok_all [OF alloc_rest_all [OF assms]] alloc_rest_all [OF alloc_rest_all [OF assms]]
  by (simp_all add: parse_line_def Let_def)

lemma parse_lines_all_ok:
  "allocs_succeed os \<Longrightarrow> fst (parse_lines os lines cur p) = HLS_OK"
proof (induction lines arbitrary: os cur p)
  case Nil
  then show ?case by simp
next
  case (Cons line lines)
  have ok: "alloc_ok os" using Cons.prems by (rule alloc_ok_all)
  have r: "allocs_succeed (alloc_rest os)" using Cons.prems by (rule alloc_rest_all)
  obtain r p' os' where pl: "parse_line (alloc_rest os) (trim line) cur p = (r, p', os')"
    by (cases "parse_line (alloc_rest os) (trim line) cur p") auto
  obtain cur' where c: "r = Inr cur'" and o: "allocs_succeed os'"
    using parse_line_all_ok [OF r, of "trim line" cur p] pl by auto
  show ?case using ok pl c Cons.IH [OF o] by simp
qed

text \<open>
  Claim C10.  \<^verbatim>\<open>hls_parse_playlist_from_memory\<close> returns \<^verbatim>\<open>HLS_ERROR_PARSE\<close>
  exactly when \<^verbatim>\<open>data\<close> or \<^verbatim>\<open>playlist\<close> is NULL.  For non-NULL arguments the
  result is \<^verbatim>\<open>HLS_OK\<close> or \<^verbatim>\<open>HLS_ERROR_MEMORY\<close> whatever the text is, and it is
  \<^verbatim>\<open>HLS_OK\<close> when no allocation fails: no content is rejected as malformed.
\<close>

theorem parse_never_rejects_content:
  "(fst (hls_parse_playlist_from_memory os data base playlist) = HLS_ERROR_PARSE \<longleftrightarrow>
      data = None \<or> playlist = None) \<and>
   (data \<noteq> None \<and> playlist \<noteq> None \<longrightarrow>
      fst (hls_parse_playlist_from_memory os data base playlist) = HLS_OK \<or>
      fst (hls_parse_playlist_from_memory os data base playlist) = HLS_ERROR_MEMORY) \<and>
   (data \<noteq> None \<and> playlist \<noteq> None \<and> allocs_succeed os \<longrightarrow>
      fst (hls_parse_playlist_from_memory os data base playlist) = HLS_OK)"
proof (cases "data = None \<or> playlist = None")
  case True
  then show ?thesis
    by (auto simp: hls_parse_playlist_from_memory_def split: option.splits)
next
  case False
  then obtain content p where dp: "data = Some content" "playlist = Some p" by auto
  define p1 where "p1 = (case base of None \<Rightarrow> p
      | Some b \<Rightarrow> p\<lparr>base_url := (if alloc_ok os then Some b else None)\<rparr>)"
  define os1 where "os1 = (case base of None \<Rightarrow> os | Some b \<Rightarrow> alloc_rest os)"
  have eq: "fst (hls_parse_playlist_from_memory os data base playlist) =
              fst (parse_lines os1 (c_lines content) None p1)"
    by (simp add: hls_parse_playlist_from_memory_def dp p1_def os1_def Let_def split: prod.splits)
  have a: "fst (parse_lines os1 (c_lines content) None p1) = HLS_OK \<or>
           fst (parse_lines os1 (c_lines content) None p1) = HLS_ERROR_MEMORY"
    by (rule parse_lines_result)
  have b: "fst (parse_lines os1 (c_lines content) None p1) = HLS_OK" if "allocs_succeed os"
  proof -
    have "allocs_succeed os1" using that alloc_rest_all [OF that]
      by (simp add: os1_def split: option.splits)
    then show ?thesis by (rule parse_lines_all_ok)
  qed
  show ?thesis using dp eq a b by auto
qed

theorem parse_never_rejects_content_witness:
  "fst (hls_parse_playlist_from_memory [] (Some ''hello world'') None (Some new_playlist)) = HLS_OK \<and>
   fst (hls_parse_playlist_from_memory [] None None (Some new_playlist)) = HLS_ERROR_PARSE \<and>
   fst (hls_parse_playlist_from_memory [] (Some ''hello world'') None None) = HLS_ERROR_PARSE"
  using parse_never_rejects_content [of "[]" "Some ''hello world''" None "Some new_playlist"]
    parse_never_rejects_content [of "[]" None None "Some new_playlist"]
    parse_never_rejects_content [of "[]" "Some ''hello world''" None None]
  by (simp add: allocs_succeed_def)

text \<open>
  Claim C7 (as amended).  When \<^verbatim>\<open>hls_parse_playlist_from_memory\<close> returns
  \<^verbatim>\<open>HLS_OK\<close>, the playlist's kind is the one set by the last kind-setting tag of the
  text (\<^verbatim>\<open>#EXT-X-STREAM-INF:\<close> sets Master; \<^verbatim>\<open>#EXTINF:\<close>,
  \<^verbatim>\<open>#EXT-X-TARGETDURATION:\<close> and \<^verbatim>\<open>#EXT-X-MEDIA-SEQUENCE:\<close> set Media), and the
  kind it had before when the text has no such tag.  Every such tag overwrites the kind,
  so Media does revert to Master when a \<^verbatim>\<open>#EXT-X-STREAM-INF:\<close> tag follows.
\<close>

theorem playlist_kind_is_last_tag:
  assumes "hls_parse_playlist_from_memory os (Some content) base (Some p) = (HLS_OK, playlist', os')"
  shows "map_option type playlist' = Some (last_kind (type p) (c_lines content))"
proof -
  define p1 where "p1 = (case base of None \<Rightarrow> p
      | Some b \<Rightarrow> p\<lparr>base_url := (if alloc_ok os then Some b else None)\<rparr>)"
  define os1 where "os1 = (case base of None \<Rightarrow> os | Some b \<Rightarrow> alloc_rest os)"
  have t: "type p1 = type p" by (simp add: p1_def split: option.splits)
  have eq: "hls_parse_playlist_from_memory os (Some content) base (Some p) =
         (fst (parse_lines os1 (c_lines content) None p1),
          Some (fst (snd (parse_lines os1 (c_lines content) None p1))),
          snd (snd (parse_lines os1 (c_lines content) None p1)))"
    by (simp add: hls_parse_playlist_from_memory_def p1_def os1_def Let_def split: prod.splits)
  with assms have ok: "fst (parse_lines os1 (c_lines content) None p1) = HLS_OK"
    and p': "playlist' = Some (fst (snd (parse_lines os1 (c_lines content) None p1)))"
    by simp_all
  show ?thesis using parse_lines_type [OF ok] p' t by simp
qed

theorem playlist_kind_is_last_tag_witness:
  "hls_parse_playlist_from_memory []
     (Some ''#EXTINF:1,\<newline>#EXT-X-STREAM-INF:BANDWIDTH=1\<newline>v.m3u8\<newline>'') None
     (Some new_playlist) =
     (HLS_OK,
      Some \<lparr>type = HLS_PLAYLIST_MASTER, base_url = None, segments = [], segment_capacity = 16,
            variants = [Some ''v.m3u8''], variants_null = False\<rparr>, []) \<and>
   last_kind HLS_PLAYLIST_UNKNOWN
     (c_lines ''#EXTINF:1,\<newline>#EXT-X-STREAM-INF:BANDWIDTH=1\<newline>v.m3u8\<newline>'') =
     HLS_PLAYLIST_MASTER"
proof -
  have h: "hls_parse_playlist_from_memory []
     (Some ''#EXTINF:1,\<newline>#EXT-X-STREAM-INF:BANDWIDTH=1\<newline>v.m3u8\<newline>'') None
     (Some new_playlist) =
     (HLS_OK,
      Some \<lparr>type = HLS_PLAYLIST_MASTER, base_url = None, segments = [], segment_capacity = 16,
            variants = [Some ''v.m3u8''], variants_null = False\<rparr>, [])"
    by code_simp
  show ?thesis using playlist_kind_is_last_tag [OF h] h by (simp add: new_playlist_def)
qed

text \<open>
  The claim as written fails: the first recognised tag of the text below is
  \<^verbatim>\<open>#EXTINF:\<close>, which sets the kind to Media (first conjunct: the text cut after that
  line), and the \<^verbatim>\<open>#EXT-X-STREAM-INF:\<close> tag that follows turns it into Master.
\<close>

theorem media_reverts_to_master:
  "map_option type (fst (snd (hls_parse_playlist_from_memory []
     (Some ''#EXTINF:1,\<newline>'') None (Some new_playlist)))) = Some HLS_PLAYLIST_MEDIA \<and>
   map_option type (fst (snd (hls_parse_playlist_from_memory []
     (Some ''#EXTINF:1,\<newline>#EXT-X-STREAM-INF:BANDWIDTH=1\<newline>v.m3u8\<newline>'') None
     (Some new_playlist)))) = Some HLS_PLAYLIST_MASTER"
  by code_simp

section \<open>Properties of the playlist refresh loop\<close>








section \<open>Properties of variant selection\<close>







section \<open>Properties of the segment consumer\<close>

lemma sint_size:
  assumes "n < 2 ^ 31"
  shows "sint (word_of_nat n :: 32 word) = int n"
proof -
  have "uint (word_of_nat n :: 32 word) = int n"
    using assms by (simp add: uint_nat unat_of_nat take_bit_nat_eq_self)
  moreover have "signed_take_bit 31 (int n) = int n"
    using assms by (intro signed_take_bit_int_eq_self) auto
  ultimately show ?thesis by (simp add: sint_uint)
qed

lemma find_sync_offset_found:
  shows "length seg < 2 ^ 31 \<Longrightarrow> k \<le> off \<Longrightarrow> off < 188 \<Longrightarrow> off + 188 * 3 \<le> length seg \<Longrightarrow> sync_at seg off \<Longrightarrow>
         \<forall>j. k \<le> j \<and> j < off \<longrightarrow> \<not> sync_at seg j \<Longrightarrow> find_sync_offset seg k = Some off"
proof (induction seg k rule: find_sync_offset.induct)
  case (1 seg k)
  have c: "sint (word_of_nat (length seg) :: 32 word) = int (length seg)"
    using "1.prems"(1) by (rule sint_size)
  show ?case
  proof (cases "k = off")
    case True
    with 1 c show ?thesis by (subst find_sync_offset.simps) simp
  next
    case False
    with 1 have lt: "k < off" by simp
    then have ns: "\<not> sync_at seg k" using 1 by simp
    have "find_sync_offset seg (k + 1) = Some off"
      using 1 lt ns c by (intro "1.IH") auto
    with 1 lt ns c show ?thesis by (subst find_sync_offset.simps) simp
  qed
qed

lemma find_sync_offset_none:
  shows "length seg < 2 ^ 31 \<Longrightarrow> \<forall>j. k \<le> j \<and> j < 188 \<and> j + 188 * 3 \<le> length seg \<longrightarrow> \<not> sync_at seg j \<Longrightarrow>
         find_sync_offset seg k = None"
proof (induction seg k rule: find_sync_offset.induct)
  case (1 seg k)
  have c: "sint (word_of_nat (length seg) :: 32 word) = int (length seg)"
    using "1.prems"(1) by (rule sint_size)
  show ?case
  proof (cases "k < 188 \<and> k + 188 * 3 \<le> length seg")
    case True
    then have ns: "\<not> sync_at seg k" using 1 by simp
    have "find_sync_offset seg (k + 1) = None"
      using 1 True ns c by (intro "1.IH") auto
    with True ns c show ?thesis by (subst find_sync_offset.simps) simp
  next
    case False
    with c show ?thesis by (subst find_sync_offset.simps) auto
  qed
qed

text \<open>
  The packet loop on the synthetic stream: the PES header is stripped and the payloads of
  the selected PID are joined; nothing is given to the decoder before the final flush.
\<close>

lemma sample_ts_stream_reassembly:
  "length sample_ts_stream = 3 * 188 \<and> sync_offset sample_ts_stream = 0 \<and>
   (case ts_loop initial_player None [] (ts_packets sample_ts_stream 0) of
      (quit, s, pes_buf) \<Rightarrow> (quit, pes_buf, decoder_feeds s)) = (False, [1, 2, 3, 4, 5, 6], [])"
  by code_simp

text \<open>
  Claim C6 (as amended).  When nobody asked to quit, the H.264 decoder is selected and the
  decoder did not return a picture for the segment as a whole, the segment is
  demultiplexed as MPEG-TS exactly when it has at least 188 bytes and its first byte is
  0x47; every other segment goes to the Annex-B fallback.  The test for three sync bytes
  188 bytes apart only chooses the offset of the first packet: the first offset below 188
  that passes it, and 0 when there is none (sizes below \<^verbatim>\<open>2^31\<close>).
\<close>

theorem segment_routing:
  "(\<not> fst (poll_quit s) \<and> \<not> should_quit_hls (snd (poll_quit s)) \<and>
    use_custom_decoder (snd (poll_quit s)) = 1 \<and>
    \<not> has_picture (fst (feed_decoder (snd (poll_quit s)) data))
                   (fst (snd (feed_decoder (snd (poll_quit s)) data))) \<longrightarrow>
      hls_segment_callback s data =
        (if 188 \<le> length data \<and> data ! 0 = 0x47
         then ts_demux (snd (snd (feed_decoder (snd (poll_quit s)) data))) data
         else annexb_fallback (snd (snd (feed_decoder (snd (poll_quit s)) data))) data)) \<and>
   (length data < 2 ^ 31 \<and> \<not> three_sync_bytes data \<longrightarrow> sync_offset data = 0) \<and>
   (length data < 2 ^ 31 \<and> off < 188 \<and> off + 188 * 3 \<le> length data \<and> sync_at data off \<and>
    (\<forall>j<off. \<not> sync_at data j) \<longrightarrow> sync_offset data = off)"
proof (intro conjI impI)
  show "hls_segment_callback s data =
           (if 188 \<le> length data \<and> data ! 0 = 0x47
            then ts_demux (snd (snd (feed_decoder (snd (poll_quit s)) data))) data
            else annexb_fallback (snd (snd (feed_decoder (snd (poll_quit s)) data))) data)"
    if "\<not> fst (poll_quit s) \<and> \<not> should_quit_hls (snd (poll_quit s)) \<and>
        use_custom_decoder (snd (poll_quit s)) = 1 \<and>
        \<not> has_picture (fst (feed_decoder (snd (poll_quit s)) data))
                       (fst (snd (feed_decoder (snd (poll_quit s)) data)))"
    using that
    by (cases "poll_quit s"; cases "feed_decoder (snd (poll_quit s)) data")
       (auto simp: hls_segment_callback_def is_ts_segment_def)
  show "sync_offset data = 0" if "length data < 2 ^ 31 \<and> \<not> three_sync_bytes data"
  proof -
    have "find_sync_offset data 0 = None"
      using that by (intro find_sync_offset_none) (auto simp: three_sync_bytes_def)
    then show ?thesis by (simp add: sync_offset_def)
  qed
  show "sync_offset data = off"
    if "length data < 2 ^ 31 \<and> off < 188 \<and> off + 188 * 3 \<le> length data \<and> sync_at data off \<and>
          (\<forall>j<off. \<not> sync_at data j)"
  proof -
    have "find_sync_offset data 0 = Some off"
      using that by (intro find_sync_offset_found) auto
    then show ?thesis by (simp add: sync_offset_def)
  qed
qed

theorem segment_routing_witness:
  "hls_segment_callback initial_player (0x47 # 0 # 0 # 1 # 0x65 # replicate 183 0) =
     ts_demux (snd (snd (feed_decoder initial_player (0x47 # 0 # 0 # 1 # 0x65 # replicate 183 0))))
       (0x47 # 0 # 0 # 1 # 0x65 # replicate 183 0) \<and>
   sync_offset (0x47 # 0 # 0 # 1 # 0x65 # replicate 183 0) = 0 \<and>
   hls_segment_callback initial_player [0, 0, 1, 0x67, 0xAA, 0, 0, 1, 0x68, 0xBB] =
     annexb_fallback
       (snd (snd (feed_decoder initial_player [0, 0, 1, 0x67, 0xAA, 0, 0, 1, 0x68, 0xBB])))
       [0, 0, 1, 0x67, 0xAA, 0, 0, 1, 0x68, 0xBB] \<and>
   sync_offset (0x47 # concat (replicate 3 (0x47 # replicate 187 0))) = 1"
proof -
  let ?d = "0x47 # 0 # 0 # 1 # 0x65 # replicate 183 (0 :: 8 word)"
  let ?e = "[0, 0, 1, 0x67, 0xAA, 0, 0, 1, 0x68, 0xBB] :: 8 word list"
  let ?f = "0x47 # concat (replicate 3 (0x47 # replicate 187 (0 :: 8 word)))"
  have p: "poll_quit initial_player = (False, initial_player)"
    by (simp add: poll_quit_def initial_player_def)
  have q: "\<not> should_quit_hls initial_player" "use_custom_decoder initial_player = 1"
    by (simp_all add: initial_player_def)
  have hd: "\<not> has_picture (fst (feed_decoder initial_player ?d))
                             (fst (snd (feed_decoder initial_player ?d)))"
    by code_simp
  have he: "\<not> has_picture (fst (feed_decoder initial_player ?e))
                             (fst (snd (feed_decoder initial_player ?e)))"
    by code_simp
  have ld: "length ?d = 188" "?d ! 0 = 0x47" by simp_all
  have nd: "\<not> three_sync_bytes ?d" by (simp add: three_sync_bytes_def)
  have lf: "length ?f = 565" by code_simp
  have f1: "sync_at ?f 1" by code_simp
  have f0: "\<not> sync_at ?f 0" by code_simp
  show ?thesis
    using segment_routing [where s = initial_player and data = ?d and off = 0]
      segment_routing [where s = initial_player and data = ?e and off = 0]
      segment_routing [where s = initial_player and data = ?f and off = 1]
      p q hd he ld nd lf f1 f0
    by simp
qed

text \<open>
  The claim as written fails: the 188 bytes below fail the three-sync-byte test (there is
  only one packet), yet they take the MPEG-TS branch, where the decoder is given nothing
  but the whole buffer; the fallback extractor would have handed it the NAL unit that
  follows the start code at offset 1.
\<close>

theorem ts_branch_without_three_sync_bytes:
  "\<not> three_sync_bytes (0x47 # 0 # 0 # 1 # 0x65 # replicate 183 0) \<and>
   is_ts_segment (0x47 # 0 # 0 # 1 # 0x65 # replicate 183 0) \<and>
   decoder_feeds (snd (hls_segment_callback initial_player
       (0x47 # 0 # 0 # 1 # 0x65 # replicate 183 0))) =
     [0x47 # 0 # 0 # 1 # 0x65 # replicate 183 0] \<and>
   decoder_feeds (snd (annexb_fallback
       (snd (snd (feed_decoder initial_player (0x47 # 0 # 0 # 1 # 0x65 # replicate 183 0))))
       (0x47 # 0 # 0 # 1 # 0x65 # replicate 183 0))) =
     [0x47 # 0 # 0 # 1 # 0x65 # replicate 183 0, 0x65 # replicate 180 0]"
proof -
  have "\<not> three_sync_bytes (0x47 # 0 # 0 # 1 # 0x65 # replicate 183 0)"
    by (simp add: three_sync_bytes_def)
  moreover have "is_ts_segment (0x47 # 0 # 0 # 1 # 0x65 # replicate 183 0)"
    by (simp add: is_ts_segment_def)
  moreover have "decoder_feeds (snd (hls_segment_callback initial_player
       (0x47 # 0 # 0 # 1 # 0x65 # replicate 183 0))) =
     [0x47 # 0 # 0 # 1 # 0x65 # replicate 183 0]"
    by code_simp
  moreover have "decoder_feeds (snd (annexb_fallback
       (snd (snd (feed_decoder initial_player (0x47 # 0 # 0 # 1 # 0x65 # replicate 183 0))))
       (0x47 # 0 # 0 # 1 # 0x65 # replicate 183 0))) =
     [0x47 # 0 # 0 # 1 # 0x65 # replicate 183 0, 0x65 # replicate 180 0]"
    by code_simp
  ultimately show ?thesis by blast
qed

text \<open>
  Claim C3, evaluated on the code.  From the payload
  \<^verbatim>\<open>00 00 01 67 AA 00 00 01 68 BB\<close> the scan yields the single NAL unit
  \<^verbatim>\<open>67 AA\<close>: the search for the end of the last unit stops three bytes before the end
  of the buffer, here at the unit's own start, so \<^verbatim>\<open>68 BB\<close> has length 0 and is
  dropped.  At each of the three extraction sites (fallback, flush of a PES buffer, final
  flush) the decoder is never given \<^verbatim>\<open>68 BB\<close>.
\<close>

theorem last_nal_of_payload_is_lost:
  "annexb_nals [0, 0, 1, 0x67, 0xAA, 0, 0, 1, 0x68, 0xBB] 0 = [[0x67, 0xAA]] \<and>
   decoder_feeds (snd (hls_segment_callback initial_player
       [0, 0, 1, 0x67, 0xAA, 0, 0, 1, 0x68, 0xBB])) =
     [[0, 0, 1, 0x67, 0xAA, 0, 0, 1, 0x68, 0xBB], [0x67, 0xAA]] \<and>
   decoder_feeds (snd (flush_pes initial_player [0, 0, 1, 0x67, 0xAA, 0, 0, 1, 0x68, 0xBB])) =
     [[0, 0, 1, 0x67, 0xAA, 0, 0, 1, 0x68, 0xBB], [0x67, 0xAA]] \<and>
   decoder_feeds (final_flush initial_player [0, 0, 1, 0x67, 0xAA, 0, 0, 1, 0x68, 0xBB]) =
     [[0x67, 0xAA]]"
  by code_simp

end
